theory Spec2Isabelle
  imports Complex_Main "HOL-Library.Sublist"
begin

section \<open>CashFlow Manager: the authentication core of \<open>main.py\<close>\<close>

text \<open>
  A shallow embedding of the validators, the rate limiter, the local token service, the
  external identity verifier and the auth endpoints of \<open>src/main.py\<close>.

  Conventions.
  \<^item> A raise of the source is a value \<open>Inl e\<close>; a return is \<open>Inr v\<close>.
  \<^item> Every read of a clock and every random draw is an explicit argument, named after the
    place in the source that makes it. A reading of \<open>time.time()\<close> is the \<open>real\<close> that
    the double stands for. The source subtracts two readings in double arithmetic, whose
    rounding is not modelled: the subtraction is the parameter \<open>fsub\<close> of every function
    that subtracts readings, so that what is proved of such a function holds for whatever
    the subtraction returns. \<open>datetime\<close> values are whole seconds (\<open>int\<close>).
  \<^item> Mutable module state (\<open>rate_limiter\<close>, the JWKS cache, the database) is passed in and
    returned.
  \<^item> The libraries the source calls (PyJWT, psycopg2, passlib, the Unicode tables of
    \<open>str\<close>) are not part of the repository. PyJWT and psycopg2 are modelled symbolically
    from their documented behaviour, in clearly marked definitions; passlib and the
    non-ASCII part of the Unicode tables are parameters.
\<close>

section \<open>Security constants\<close>

definition MIN_PASSWORD_LENGTH :: nat where
  "MIN_PASSWORD_LENGTH = 12"

definition MAX_PASSWORD_LENGTH :: nat where
  "MAX_PASSWORD_LENGTH = 128"

section \<open>Input validation\<close>

text \<open>
  A Python \<open>str\<close> whose characters matter is a list of Unicode code points. \<open>str s\<close>
  turns a literal of this theory into one.
\<close>

type_synonym pystr = "nat list"

definition str :: "string \<Rightarrow> pystr" where
  "str s = map of_char s"

text \<open>
  \<open>c.isupper()\<close>, \<open>c.islower()\<close> and \<open>c.isdigit()\<close> for one character. On ASCII they
  are the ranges \<open>A-Z\<close>, \<open>a-z\<close> and \<open>0-9\<close>; beyond ASCII they follow the Unicode
  character database, which is a parameter.
\<close>

record unicode_db =
  uc_upper :: "nat \<Rightarrow> bool"
  uc_lower :: "nat \<Rightarrow> bool"
  uc_digit :: "nat \<Rightarrow> bool"

definition isupper :: "unicode_db \<Rightarrow> nat \<Rightarrow> bool" where
  "isupper U c = (if c < 128 then 65 \<le> c \<and> c \<le> 90 else uc_upper U c)"

definition islower :: "unicode_db \<Rightarrow> nat \<Rightarrow> bool" where
  "islower U c = (if c < 128 then 97 \<le> c \<and> c \<le> 122 else uc_lower U c)"

definition isdigit :: "unicode_db \<Rightarrow> nat \<Rightarrow> bool" where
  "isdigit U c = (if c < 128 then 48 \<le> c \<and> c \<le> 57 else uc_digit U c)"

text \<open>The punctuation set of \<open>has_special\<close>, in the order of the source's literal.\<close>

definition special_characters :: pystr where
  "special_characters = str ''!@#$%^&*()_+-=[]{}|;:,.<>?''"

text \<open>
  \<open>validate_password_strength\<close> (lines 196-213): two length guards with early returns,
  then the four character classes.
\<close>

definition validate_password_strength :: "unicode_db \<Rightarrow> pystr \<Rightarrow> bool \<times> string" where
  "validate_password_strength U password =
     (if length password < MIN_PASSWORD_LENGTH
      then (False, ''Password must be at least 12 characters long'')
      else if length password > MAX_PASSWORD_LENGTH
      then (False, ''Password must be less than 128 characters'')
      else
        let has_upper = list_ex (isupper U) password;
            has_lower = list_ex (islower U) password;
            has_digit = list_ex (isdigit U) password;
            has_special = list_ex (\<lambda>c. c \<in> set special_characters) password
        in if \<not> (has_upper \<and> has_lower \<and> has_digit \<and> has_special)
           then (False, ''Password must contain uppercase, lowercase, digit, and special character'')
           else (True, ''Password is strong''))"

section \<open>Rate limiting\<close>

text \<open>
  \<open>RateLimiter\<close> (lines 347-407). Both tables are \<open>defaultdict(list)\<close>: a lookup of an
  address never seen gives the empty list, so they are total functions.
\<close>

type_synonym ip = string

text \<open>\<open>fsub a b\<close> is the double that Python computes for \<open>a - b\<close>.\<close>

type_synonym float_sub = "real \<Rightarrow> real \<Rightarrow> real"

record RateLimiter =
  requests :: "ip \<Rightarrow> (real \<times> string) list"
  failed_attempts :: "ip \<Rightarrow> real list"

definition RateLimiter_init :: RateLimiter where
  "RateLimiter_init = \<lparr> requests = (\<lambda>_. []), failed_attempts = (\<lambda>_. []) \<rparr>"

text \<open>\<open>self.limits[limit_key]\<close> as \<open>(requests, window)\<close>; the five keys of the source.\<close>

datatype limit_key = default | transactions | summary | auth_login | auth_register

fun limits :: "limit_key \<Rightarrow> nat \<times> nat" where
  "limits default = (100, 60)"
| "limits transactions = (100, 60)"
| "limits summary = (50, 60)"
| "limits auth_login = (5, 300)"
| "limits auth_register = (3, 3600)"

text \<open>The \<open>if/elif\<close> chain of substring tests at the head of \<open>check_rate_limit\<close>.\<close>

definition classify :: "string \<Rightarrow> limit_key" where
  "classify endpoint =
     (if sublist ''login'' endpoint then auth_login
      else if sublist ''register'' endpoint then auth_register
      else if sublist ''transactions'' endpoint then transactions
      else if sublist ''summary'' endpoint then summary
      else default)"

text \<open>\<open>_clean_old_requests\<close>; \<open>current_time\<close> is its own read of \<open>time.time()\<close>.\<close>

definition clean_old_requests ::
  "float_sub \<Rightarrow> RateLimiter \<Rightarrow> ip \<Rightarrow> nat \<Rightarrow> real \<Rightarrow> RateLimiter" where
  "clean_old_requests fsub self i window current_time =
     self\<lparr> requests := (requests self)
       (i := filter (\<lambda>(timestamp, endpoint). fsub current_time timestamp < real window)
               (requests self i)) \<rparr>"

text \<open>\<open>check_failed_attempts\<close> with its defaults \<open>max_attempts = 10\<close>, \<open>window = 3600\<close>.\<close>

definition check_failed_attempts ::
  "float_sub \<Rightarrow> RateLimiter \<Rightarrow> ip \<Rightarrow> real \<Rightarrow> bool \<times> RateLimiter" where
  "check_failed_attempts fsub self i current_time =
     (let kept = filter (\<lambda>timestamp. fsub current_time timestamp < 3600)
                   (failed_attempts self i);
          self' = self\<lparr> failed_attempts := (failed_attempts self)(i := kept) \<rparr>
      in (length kept < 10, self'))"

definition record_failed_attempt :: "RateLimiter \<Rightarrow> ip \<Rightarrow> real \<Rightarrow> RateLimiter" where
  "record_failed_attempt self i current_time =
     self\<lparr> failed_attempts := (failed_attempts self)(i := failed_attempts self i @ [current_time]) \<rparr>"

text \<open>
  \<open>RateLimiter.check_rate_limit\<close>. \<open>t_clean\<close> is the clock read inside
  \<open>_clean_old_requests\<close>, \<open>current_time\<close> the second read made by the method itself.
  The result is \<open>(allowed, remaining, window)\<close>.
\<close>

definition RateLimiter_check_rate_limit ::
  "float_sub \<Rightarrow> RateLimiter \<Rightarrow> ip \<Rightarrow> string \<Rightarrow> real \<Rightarrow> real
     \<Rightarrow> (bool \<times> int \<times> nat) \<times> RateLimiter" where
  "RateLimiter_check_rate_limit fsub self i endpoint t_clean current_time =
     (let limit_key = classify endpoint;
          max_requests = fst (limits limit_key);
          window = snd (limits limit_key);
          self1 = clean_old_requests fsub self i window t_clean;
          recent_requests =
            length (filter (\<lambda>(t, e). fsub current_time t < real window) (requests self1 i))
      in if recent_requests \<ge> max_requests
         then ((False, int max_requests, window), self1)
         else ((True, int max_requests - int recent_requests - 1, window),
               self1\<lparr> requests := (requests self1)
                 (i := requests self1 i @ [(current_time, endpoint)]) \<rparr>))"

section \<open>Exceptions and responses\<close>

text \<open>
  The exceptions that reach the claims. \<open>HTTPException status detail\<close> is FastAPI's; an
  exception of any other class that leaves a handler is answered by the framework with
  status 500. \<open>Invalid_token e\<close> is the f-string \<open>"Invalid token: {str(e)}"\<close>, kept
  symbolic in \<open>e\<close>; \<open>Rate_limit_exceeded w\<close> is the dictionary with \<open>error\<close>,
  \<open>message\<close> and \<open>retry_after = w\<close>; \<open>Unsupported_key_type kty\<close> is
  \<open>"Unsupported key type: {kty}"\<close>.
\<close>

datatype detail =
    Text string
  | Invalid_token py_exn
  | Unsupported_key_type "string option"
  | Rate_limit_exceeded nat
and py_exn =
    HTTPException nat detail
  | DecodeError
  | InvalidAlgorithmError
  | InvalidKeyError
  | InvalidSignatureError
  | ExpiredSignatureError
  | AttributeError string
  | KeyError string
  | InterfaceError string
  | SyntaxError string
  | TypeError string
  | ValueError string

fun status_code :: "py_exn \<Rightarrow> nat" where
  "status_code (HTTPException s d) = s"
| "status_code e = 500"

record request =
  client_host :: ip
  url_path :: string

text \<open>
  The dependency \<open>check_rate_limit(request)\<close> (lines 411-427) on the module's
  \<open>rate_limiter\<close>.
\<close>

definition check_rate_limit ::
  "float_sub \<Rightarrow> RateLimiter \<Rightarrow> request \<Rightarrow> real \<Rightarrow> real
     \<Rightarrow> (py_exn + bool) \<times> RateLimiter" where
  "check_rate_limit fsub rate_limiter req t_clean current_time =
     (case RateLimiter_check_rate_limit fsub rate_limiter (client_host req) (url_path req)
             t_clean current_time of
        ((allowed, remaining, window), rate_limiter') \<Rightarrow>
          if \<not> allowed
          then (Inl (HTTPException 429 (Rate_limit_exceeded window)), rate_limiter')
          else (Inr True, rate_limiter'))"

section \<open>Tokens: a symbolic model of PyJWT\<close>

text \<open>
  A key is named by its material (a shared secret) or by the number of its key pair. A
  bearer string is either a well-formed token, which records its header, the key that
  signed it and its payload, or anything else (\<open>Garbage\<close>). Signatures cannot be forged:
  a token verifies under a key exactly when that key signed it.
\<close>

datatype jwt_key = HMAC_key string | RSA_key nat | EC_key nat

text \<open>
  The payload: the claims that the code writes or reads, and \<open>exp\<close>, the one claim
  among them that \<open>jwt.decode\<close> validates. A payload carries no \<open>nbf\<close> and no \<open>iat\<close>
  claim (the tokens of the local service have none).
\<close>

record claims =
  sub :: "string option"
  exp :: "int option"
  type :: "string option"
  email :: "string option"

record jose_header =
  alg :: "string option"
  kid :: "string option"

datatype token = JWT jose_header jwt_key claims | Garbage string

text \<open>
  The algorithms PyJWT knows, by the kind of key they work with; \<open>none\<close> is the
  algorithm without a signature.
\<close>

datatype key_family = HMAC | RSA | EC | Unsecured

definition alg_family :: "string \<Rightarrow> key_family option" where
  "alg_family a =
     (if a \<in> set [''HS256'', ''HS384'', ''HS512''] then Some HMAC
      else if a \<in> set [''RS256'', ''RS384'', ''RS512'', ''PS256'', ''PS384'', ''PS512'']
      then Some RSA
      else if a \<in> set [''ES256'', ''ES384'', ''ES512''] then Some EC
      else if a = ''none'' then Some Unsecured
      else None)"

fun key_family_of :: "jwt_key \<Rightarrow> key_family" where
  "key_family_of (HMAC_key s) = HMAC"
| "key_family_of (RSA_key n) = RSA"
| "key_family_of (EC_key n) = EC"

text \<open>
  \<open>prepare_key\<close> of an algorithm: the exception it raises for a key it cannot use, if
  any. An \<open>HMAC_key\<close> is a plain string (no PEM text), the other keys are key objects
  of the \<open>cryptography\<close> package. The HMAC algorithms want a string; the RSA and EC
  algorithms want a key object of their own kind or a PEM text; \<open>none\<close> wants no key
  (the empty string counts as none).
\<close>

fun prepare_key :: "key_family \<Rightarrow> jwt_key \<Rightarrow> py_exn option" where
  "prepare_key HMAC (HMAC_key s) = None"
| "prepare_key HMAC (RSA_key n) = Some (TypeError ''Expected a string or bytes value'')"
| "prepare_key HMAC (EC_key n) = Some (TypeError ''Expected a string or bytes value'')"
| "prepare_key RSA (HMAC_key s) = Some InvalidKeyError"
| "prepare_key RSA (RSA_key n) = None"
| "prepare_key RSA (EC_key n) = Some (TypeError ''Expecting a PEM-formatted key.'')"
| "prepare_key EC (HMAC_key s) = Some (ValueError ''Could not deserialize key data'')"
| "prepare_key EC (RSA_key n) = Some (TypeError ''Expecting a PEM-formatted key.'')"
| "prepare_key EC (EC_key n) = None"
| "prepare_key Unsecured (HMAC_key s) = (if s = [] then None else Some InvalidKeyError)"
| "prepare_key Unsecured (RSA_key n) = Some InvalidKeyError"
| "prepare_key Unsecured (EC_key n) = Some InvalidKeyError"

definition jwt_encode :: "claims \<Rightarrow> jwt_key \<Rightarrow> string \<Rightarrow> token" where
  "jwt_encode payload key algorithm = JWT \<lparr> alg = Some algorithm, kid = None \<rparr> key payload"

text \<open>
  \<open>jwt.decode(token, key, algorithms=...)\<close> at wall-clock second \<open>now\<close>, in PyJWT's
  order: parse, algorithm allowed and known, \<open>prepare_key\<close>, signature (the algorithm
  \<open>none\<close> verifies nothing), then \<open>exp\<close> (expired when \<open>exp \<le> now\<close>; a payload
  without \<open>exp\<close> does not expire).
\<close>

definition jwt_decode :: "token \<Rightarrow> jwt_key \<Rightarrow> string option list \<Rightarrow> int \<Rightarrow> py_exn + claims" where
  "jwt_decode tok key algorithms now =
     (case tok of
        Garbage s \<Rightarrow> Inl DecodeError
      | JWT h k payload \<Rightarrow>
          (case alg h of
             None \<Rightarrow> Inl InvalidAlgorithmError
           | Some a \<Rightarrow>
               if Some a \<notin> set algorithms then Inl InvalidAlgorithmError
               else
                 (case alg_family a of
                    None \<Rightarrow> Inl InvalidAlgorithmError
                  | Some family \<Rightarrow>
                      (case prepare_key family key of
                         Some e \<Rightarrow> Inl e
                       | None \<Rightarrow>
                           if family = Unsecured \<or> k \<noteq> key then Inl InvalidSignatureError
                           else (case exp payload of
                                   None \<Rightarrow> Inr payload
                                 | Some e \<Rightarrow>
                                     if e \<le> now then Inl ExpiredSignatureError
                                     else Inr payload)))))"

definition get_unverified_header :: "token \<Rightarrow> py_exn + jose_header" where
  "get_unverified_header tok =
     (case tok of Garbage s \<Rightarrow> Inl DecodeError | JWT h k payload \<Rightarrow> Inr h)"

text \<open>
  The exception classes that the module \<open>jwt\<close> of PyJWT exports. \<open>JWTError\<close> (a name of
  python-jose) is not among them.
\<close>

definition jwt_exceptions :: "string list" where
  "jwt_exceptions =
     [''DecodeError'', ''ExpiredSignatureError'', ''ImmatureSignatureError'',
      ''InvalidAlgorithmError'', ''InvalidAudienceError'', ''InvalidIssuedAtError'',
      ''InvalidIssuerError'', ''InvalidKeyError'', ''InvalidSignatureError'',
      ''InvalidJTIError'', ''InvalidSubjectError'', ''InvalidTokenError'',
      ''MissingRequiredClaimError'', ''PyJWKClientConnectionError'', ''PyJWKClientError'',
      ''PyJWKError'', ''PyJWKSetError'', ''PyJWTError'']"

section \<open>Configuration and the local token service\<close>

record config =
  SECRET_KEY :: string
  ACCESS_TOKEN_EXPIRE_MINUTES :: int
  REFRESH_TOKEN_EXPIRE_DAYS :: int

text \<open>The values \<open>os.getenv\<close> falls back to.\<close>

definition default_config :: config where
  "default_config =
     \<lparr> SECRET_KEY = ''your-secret-key-change-in-production'',
       ACCESS_TOKEN_EXPIRE_MINUTES = 30,
       REFRESH_TOKEN_EXPIRE_DAYS = 7 \<rparr>"

definition ALGORITHM :: string where
  "ALGORITHM = ''HS256''"

definition minutes :: "int \<Rightarrow> int" where
  "minutes n = 60 * n"

definition days :: "int \<Rightarrow> int" where
  "days n = 86400 * n"

text \<open>\<open>utcnow\<close> is the value of \<open>datetime.utcnow()\<close> read inside the function.\<close>

definition create_access_token :: "config \<Rightarrow> string \<Rightarrow> int \<Rightarrow> token" where
  "create_access_token cfg user_id utcnow =
     (let expire = utcnow + minutes (ACCESS_TOKEN_EXPIRE_MINUTES cfg);
          payload = \<lparr> sub = Some user_id, exp = Some expire, type = Some ''access'',
                      email = None \<rparr>
      in jwt_encode payload (HMAC_key (SECRET_KEY cfg)) ALGORITHM)"

definition create_refresh_token :: "config \<Rightarrow> string \<Rightarrow> int \<Rightarrow> token" where
  "create_refresh_token cfg user_id utcnow =
     (let expire = utcnow + days (REFRESH_TOKEN_EXPIRE_DAYS cfg);
          payload = \<lparr> sub = Some user_id, exp = Some expire, type = Some ''refresh'',
                      email = None \<rparr>
      in jwt_encode payload (HMAC_key (SECRET_KEY cfg)) ALGORITHM)"

text \<open>
  \<open>verify_token\<close> (lines 537-547). The two \<open>except\<close> clauses are tried in order, and
  the expression of a clause is evaluated only when an exception reaches it: for an
  exception other than \<open>ExpiredSignatureError\<close> Python evaluates \<open>jwt.JWTError\<close>, and a
  module attribute that does not exist raises \<open>AttributeError\<close> in place of the handler.
\<close>

definition verify_token :: "config \<Rightarrow> token \<Rightarrow> string \<Rightarrow> int \<Rightarrow> py_exn + claims option" where
  "verify_token cfg tok token_type now =
     (case jwt_decode tok (HMAC_key (SECRET_KEY cfg)) [Some ALGORITHM] now of
        Inr payload \<Rightarrow>
          if type payload \<noteq> Some token_type then Inr None else Inr (Some payload)
      | Inl e \<Rightarrow>
          if e = ExpiredSignatureError then Inr None
          else if ''JWTError'' \<in> set jwt_exceptions then Inr None
          else Inl (AttributeError ''module jwt has no attribute JWTError''))"

text \<open>\<open>hash_token\<close>: the SHA-256 digest, symbolic.\<close>

datatype digest = Sha256 token

definition hash_token :: "token \<Rightarrow> digest" where
  "hash_token tok = Sha256 tok"

section \<open>The external identity verifier\<close>

text \<open>
  A JWKS document is the JSON object the provider answers with, as the list of its
  members; a key entry holds its \<open>kid\<close>, its \<open>kty\<close> and the key that \<open>from_jwk\<close>
  rebuilds from it (none when the entry is malformed). An entry is an object with at
  least one member, so the entry found is truthy at line 604.
\<close>

record jwk =
  jwk_kid :: "string option"
  kty :: "string option"
  material :: "jwt_key option"

type_synonym jwks = "(string \<times> jwk list) list"

record jwks_state =
  jwks_cache :: "jwks option"
  jwks_cache_time :: "real option"

definition jwks_init :: jwks_state where
  "jwks_init = \<lparr> jwks_cache = None, jwks_cache_time = None \<rparr>"

text \<open>Truthiness of the two module variables: \<open>None\<close>, \<open>{}\<close> and \<open>0.0\<close> are false.\<close>

definition truthy_jwks :: "jwks option \<Rightarrow> bool" where
  "truthy_jwks c = (case c of None \<Rightarrow> False | Some members \<Rightarrow> members \<noteq> [])"

definition truthy_time :: "real option \<Rightarrow> bool" where
  "truthy_time t = (case t of None \<Rightarrow> False | Some x \<Rightarrow> x \<noteq> 0)"

text \<open>
  \<open>get_jwks\<close> (lines 266-290). \<open>fetched\<close> is the outcome of the \<open>try\<close> block's HTTP
  request: the parsed document, or \<open>None\<close> when \<open>requests.get\<close>, \<open>raise_for_status\<close> or
  \<open>json()\<close> raised. \<open>t_check\<close> and \<open>t_store\<close> are the two reads of \<open>time.time()\<close>.
\<close>

definition get_jwks ::
  "float_sub \<Rightarrow> jwks_state \<Rightarrow> jwks option \<Rightarrow> real \<Rightarrow> real \<Rightarrow> jwks option \<times> jwks_state"
  where
  "get_jwks fsub st fetched t_check t_store =
     (if truthy_jwks (jwks_cache st) \<and> truthy_time (jwks_cache_time st)
         \<and> (case jwks_cache_time st of
               None \<Rightarrow> False
             | Some cached \<Rightarrow> fsub t_check cached < 3600)
      then (jwks_cache st, st)
      else (case fetched of
              Some document \<Rightarrow>
                (Some document, \<lparr> jwks_cache = Some document, jwks_cache_time = Some t_store \<rparr>)
            | None \<Rightarrow> (None, st)))"

definition jwks_keys :: "jwks \<Rightarrow> jwk list" where
  "jwks_keys document = (case map_of document ''keys'' of None \<Rightarrow> [] | Some ks \<Rightarrow> ks)"

definition RSAAlgorithm_from_jwk :: "jwk \<Rightarrow> py_exn + jwt_key" where
  "RSAAlgorithm_from_jwk key_data =
     (case material key_data of Some (RSA_key n) \<Rightarrow> Inr (RSA_key n) | _ \<Rightarrow> Inl InvalidKeyError)"

definition ECAlgorithm_from_jwk :: "jwk \<Rightarrow> py_exn + jwt_key" where
  "ECAlgorithm_from_jwk key_data =
     (case material key_data of Some (EC_key n) \<Rightarrow> Inr (EC_key n) | _ \<Rightarrow> Inl InvalidKeyError)"

record identity =
  identity_user_id :: string
  identity_email :: "string option"

text \<open>
  The body of the \<open>try\<close> block of \<open>verify_supabase_token\<close> (lines 583-631): what it
  returns or raises, before the two \<open>except\<close> clauses see it.
\<close>

definition verify_supabase_token_try ::
  "float_sub \<Rightarrow> jwks_state \<Rightarrow> jwks option \<Rightarrow> real \<Rightarrow> real \<Rightarrow> token \<Rightarrow> int
     \<Rightarrow> (py_exn + identity) \<times> jwks_state"
  where
  "verify_supabase_token_try fsub st fetched t_check t_store tok now =
     (case get_unverified_header tok of
        Inl e \<Rightarrow> (Inl e, st)
      | Inr unverified_header \<Rightarrow>
          (case get_jwks fsub st fetched t_check t_store of
             (jwks, st') \<Rightarrow>
               (case (if truthy_jwks jwks then jwks else None) of
                  None \<Rightarrow> (Inl (HTTPException 500 (Text ''Unable to fetch JWKS'')), st')
                | Some document \<Rightarrow>
                 (case find (\<lambda>key. jwk_kid key = kid unverified_header)
                         (jwks_keys document) of
                    None \<Rightarrow>
                      (Inl (HTTPException 401 (Text ''Signing key not found in JWKS'')), st')
                  | Some key_data \<Rightarrow>
                      (case (if kty key_data = Some ''RSA'' then RSAAlgorithm_from_jwk key_data
                             else if kty key_data = Some ''EC'' then ECAlgorithm_from_jwk key_data
                             else Inl (HTTPException 401 (Unsupported_key_type (kty key_data)))) of
                         Inl e \<Rightarrow> (Inl e, st')
                       | Inr signing_key \<Rightarrow>
                           (case jwt_decode tok signing_key [alg unverified_header] now of
                              Inl e \<Rightarrow> (Inl e, st')
                            | Inr payload \<Rightarrow>
                                (case sub payload of
                                   None \<Rightarrow> (Inl (KeyError ''sub''), st')
                                 | Some s \<Rightarrow>
                                     (Inr \<lparr> identity_user_id = s,
                                            identity_email = email payload \<rparr>, st'))))))))"

text \<open>
  \<open>verify_supabase_token\<close>: the \<open>try\<close> block under its handlers. \<open>HTTPException\<close> is a
  subclass of \<open>Exception\<close>, so the second clause also catches the ones raised inside the
  block.
\<close>

definition verify_supabase_token ::
  "float_sub \<Rightarrow> jwks_state \<Rightarrow> jwks option \<Rightarrow> real \<Rightarrow> real \<Rightarrow> token \<Rightarrow> int
     \<Rightarrow> (py_exn + identity) \<times> jwks_state"
  where
  "verify_supabase_token fsub st fetched t_check t_store tok now =
     (case verify_supabase_token_try fsub st fetched t_check t_store tok now of
        (Inr user, st') \<Rightarrow> (Inr user, st')
      | (Inl e, st') \<Rightarrow>
          if e = ExpiredSignatureError
          then (Inl (HTTPException 401 (Text ''Token has expired'')), st')
          else (Inl (HTTPException 401 (Invalid_token e)), st'))"

section \<open>Storage\<close>

text \<open>
  The two tables the auth endpoints use, with the columns their statements name. The
  boolean columns are \<open>bool\<close>; timestamps are the seconds of the naive \<open>datetime\<close> whose
  ISO text is stored. No statement of the source creates these tables, so no constraint
  of theirs is modelled: uniqueness of emails rests on the check in \<open>register_user\<close>.
\<close>

record user =
  user_id :: string
  user_email :: string
  password_hash :: string
  full_name :: string
  business_name :: "string option"
  is_active :: bool
  is_verified :: bool
  created_at :: int
  updated_at :: int
  last_login_at :: "int option"

record session =
  session_id :: string
  session_user_id :: string
  access_token_hash :: digest
  refresh_token_hash :: digest
  expires_at :: int
  session_created_at :: int
  ip_address :: ip

record database =
  users :: "user list"
  auth_sessions :: "session list"

text \<open>
  psycopg2. A cursor used as a context manager is closed when its \<open>with\<close> block is
  left, and \<open>execute\<close> on a closed cursor raises \<open>InterfaceError\<close>. Parameters are bound
  to \<open>%s\<close> placeholders only: a query written with \<open>?\<close> holds no placeholder, so it
  goes to the server as it is, and the server refuses it with a syntax error.
  \<open>cursor_execute\<close> gives the exception that \<open>execute\<close> raises in place of the
  statement's effect, if any.
\<close>

datatype cursor = Open | Closed

datatype paramstyle = Pyformat | Qmark

definition cursor_execute :: "cursor \<Rightarrow> paramstyle \<Rightarrow> py_exn option" where
  "cursor_execute c style =
     (if c = Closed then Some (InterfaceError ''cursor already closed'')
      else if style = Qmark then Some (SyntaxError ''syntax error at or near ,'')
      else None)"

text \<open>The statements, each as the function on the tables that it computes.\<close>

definition select_user_by_email :: "database \<Rightarrow> string \<Rightarrow> user option" where
  \<comment> \<open>\<open>SELECT ... FROM users WHERE email = %s\<close>, then \<open>fetchone()\<close>\<close>
  "select_user_by_email db e = find (\<lambda>u. user_email u = e) (users db)"

definition select_active_user :: "database \<Rightarrow> string option \<Rightarrow> user option" where
  \<comment> \<open>\<open>SELECT * FROM users WHERE user_id = %s AND is_active = 1\<close>; a null parameter
      matches no row\<close>
  "select_active_user db uid =
     (case uid of
        None \<Rightarrow> None
      | Some v \<Rightarrow> find (\<lambda>u. user_id u = v \<and> is_active u) (users db))"

definition insert_user :: "database \<Rightarrow> user \<Rightarrow> database" where
  "insert_user db u = db\<lparr> users := users db @ [u] \<rparr>"

definition insert_session :: "database \<Rightarrow> session \<Rightarrow> database" where
  "insert_session db s = db\<lparr> auth_sessions := auth_sessions db @ [s] \<rparr>"

definition update_last_login :: "database \<Rightarrow> int \<Rightarrow> string \<Rightarrow> database" where
  \<comment> \<open>\<open>UPDATE users SET last_login_at = %s WHERE user_id = %s\<close>\<close>
  "update_last_login db t uid =
     db\<lparr> users := map (\<lambda>u. if user_id u = uid then u\<lparr> last_login_at := Some t \<rparr> else u)
                    (users db) \<rparr>"

definition update_password :: "database \<Rightarrow> string \<Rightarrow> int \<Rightarrow> string \<Rightarrow> database" where
  \<comment> \<open>\<open>UPDATE users SET password_hash = %s, updated_at = %s WHERE user_id = %s\<close>\<close>
  "update_password db new_hash t uid =
     db\<lparr> users := map (\<lambda>u. if user_id u = uid
                           then u\<lparr> password_hash := new_hash, updated_at := t \<rparr> else u)
                    (users db) \<rparr>"

definition delete_sessions :: "database \<Rightarrow> string \<Rightarrow> database" where
  \<comment> \<open>\<open>DELETE FROM auth_sessions WHERE user_id = %s\<close>\<close>
  "delete_sessions db uid =
     db\<lparr> auth_sessions := filter (\<lambda>s. session_user_id s \<noteq> uid) (auth_sessions db) \<rparr>"

fun set_column :: "string \<times> string \<Rightarrow> user \<Rightarrow> user" where
  "set_column (k, v) u =
     (if k = ''full_name'' then u\<lparr> full_name := v \<rparr>
      else if k = ''business_name'' then u\<lparr> business_name := Some v \<rparr>
      else u)"

definition update_profile :: "database \<Rightarrow> (string \<times> string) list \<Rightarrow> int \<Rightarrow> string \<Rightarrow> database"
  where
  \<comment> \<open>\<open>UPDATE users SET {set_clause}, updated_at = %s WHERE user_id = %s\<close>\<close>
  "update_profile db update_data t uid =
     db\<lparr> users := map (\<lambda>u. if user_id u = uid
                           then (fold set_column update_data u)\<lparr> updated_at := t \<rparr> else u)
                    (users db) \<rparr>"

section \<open>The local authorization dependency\<close>

text \<open>
  \<open>get_current_user\<close> (lines 553-577); \<open>now\<close> is the wall clock at which PyJWT checks
  \<open>exp\<close>. The query runs inside the cursor's \<open>with\<close> block. The function reads the table
  \<open>users\<close> only.
\<close>

definition get_current_user :: "config \<Rightarrow> database \<Rightarrow> token \<Rightarrow> int \<Rightarrow> py_exn + user" where
  "get_current_user cfg db tok now =
     (case verify_token cfg tok ''access'' now of
        Inl e \<Rightarrow> Inl e
      | Inr None \<Rightarrow> Inl (HTTPException 401 (Text ''Invalid or expired token''))
      | Inr (Some payload) \<Rightarrow>
          (case cursor_execute Open Pyformat of
             Some e \<Rightarrow> Inl e
           | None \<Rightarrow>
               (case select_active_user db (sub payload) of
                  None \<Rightarrow> Inl (HTTPException 401 (Text ''User not found or inactive''))
                | Some u \<Rightarrow> Inr u)))"

section \<open>Auth endpoints\<close>

text \<open>
  passlib's \<open>pwd_context\<close> is a parameter. A request body arrives after pydantic has
  validated it. Each handler takes the committed tables and returns the tables that are
  committed when it is left: \<open>get_db_connection\<close> rolls back on every exception, so a
  raise returns the tables it was given. The pool is taken to hand out a connection.
  The records of \<open>AuditLogger\<close> go to the process log, which no function reads; they
  are left out.
\<close>

record pwd_context =
  hash :: "pystr \<Rightarrow> string"
  verify :: "pystr \<Rightarrow> string \<Rightarrow> bool"

record UserRegister =
  reg_email :: string
  reg_password :: pystr
  reg_full_name :: string
  reg_business_name :: "string option"

record UserLogin =
  login_email :: string
  login_password :: pystr

record TokenResponse =
  access_token :: token
  refresh_token :: token
  token_type :: string
  response_user :: "string \<times> string \<times> string"

record PasswordChange =
  current_password :: pystr
  new_password :: pystr

record UserProfile =
  profile_user_id :: string
  profile_email :: string
  profile_full_name :: string
  profile_business_name :: "string option"
  profile_is_verified :: bool
  profile_created_at :: int

text \<open>The random draws and clock reads of \<open>register_user\<close>, in the order it makes them.\<close>

record register_reads =
  rr_user_id :: string         \<comment> \<open>\<open>secrets.token_urlsafe(16)\<close>, line 773\<close>
  rr_now :: int                \<comment> \<open>\<open>datetime.now()\<close>, local time, line 775\<close>
  rr_utcnow_access :: int      \<comment> \<open>\<open>datetime.utcnow()\<close> in \<open>create_access_token\<close>\<close>
  rr_utcnow_refresh :: int     \<comment> \<open>\<open>datetime.utcnow()\<close> in \<open>create_refresh_token\<close>\<close>
  rr_session_id :: string      \<comment> \<open>\<open>secrets.token_urlsafe(32)\<close>, line 789\<close>
  rr_utcnow_expires :: int     \<comment> \<open>\<open>datetime.utcnow()\<close>, line 790\<close>

text \<open>The session row of lines 788-797, as the parameter tuple of the \<open>INSERT\<close>.\<close>

definition register_session :: "config \<Rightarrow> register_reads \<Rightarrow> ip \<Rightarrow> session" where
  "register_session cfg rd host =
     (let uid = rr_user_id rd;
          now = rr_now rd;
          access = create_access_token cfg uid (rr_utcnow_access rd);
          refresh = create_refresh_token cfg uid (rr_utcnow_refresh rd);
          expires = rr_utcnow_expires rd + days (REFRESH_TOKEN_EXPIRE_DAYS cfg)
      in \<lparr> session_id = rr_session_id rd, session_user_id = uid,
           access_token_hash = hash_token access, refresh_token_hash = hash_token refresh,
           expires_at = expires, session_created_at = now, ip_address = host \<rparr>)"

text \<open>
  \<open>register_user\<close> (lines 759-810). The cursor's \<open>with\<close> block ends after the \<open>INSERT\<close>
  into \<open>users\<close> (line 782); the \<open>INSERT\<close> into \<open>auth_sessions\<close> (line 792) is outside
  it, and is written with \<open>?\<close> placeholders.
\<close>

definition register_user ::
  "config \<Rightarrow> pwd_context \<Rightarrow> database \<Rightarrow> UserRegister \<Rightarrow> ip \<Rightarrow> register_reads
     \<Rightarrow> (py_exn + TokenResponse) \<times> database" where
  "register_user cfg pwd db user_data host rd =
     (case cursor_execute Open Pyformat of
        Some e \<Rightarrow> (Inl e, db)
      | None \<Rightarrow>
          if select_user_by_email db (reg_email user_data) \<noteq> None
          then (Inl (HTTPException 400 (Text ''Email already registered'')), db)
          else
            let uid = rr_user_id rd;
                pw_hash = hash pwd (reg_password user_data);
                now = rr_now rd
            in (case cursor_execute Open Pyformat of
                  Some e \<Rightarrow> (Inl e, db)
                | None \<Rightarrow>
                    let txn = insert_user db
                          \<lparr> user_id = uid, user_email = reg_email user_data,
                            password_hash = pw_hash, full_name = reg_full_name user_data,
                            business_name = reg_business_name user_data,
                            is_active = True, is_verified = True,
                            created_at = now, updated_at = now, last_login_at = None \<rparr>;
                        access = create_access_token cfg uid (rr_utcnow_access rd);
                        refresh = create_refresh_token cfg uid (rr_utcnow_refresh rd)
                    in (case cursor_execute Closed Qmark of
                          Some e \<Rightarrow> (Inl e, db)
                        | None \<Rightarrow>
                            (Inr \<lparr> access_token = access, refresh_token = refresh,
                                   token_type = ''bearer'',
                                   response_user =
                                     (uid, reg_email user_data, reg_full_name user_data) \<rparr>,
                             insert_session txn (register_session cfg rd host)))))"

text \<open>The clock reads and random draws of \<open>login_user\<close>.\<close>

record login_reads =
  lr_time_check :: real        \<comment> \<open>\<open>time.time()\<close> in \<open>check_failed_attempts\<close>\<close>
  lr_time_record :: real       \<comment> \<open>\<open>time.time()\<close> in \<open>record_failed_attempt\<close>\<close>
  lr_now_last_login :: int     \<comment> \<open>\<open>datetime.now()\<close>, line 851\<close>
  lr_utcnow_access :: int
  lr_utcnow_refresh :: int
  lr_session_id :: string      \<comment> \<open>\<open>secrets.token_urlsafe(32)\<close>, line 858\<close>
  lr_utcnow_expires :: int     \<comment> \<open>\<open>datetime.utcnow()\<close>, line 859\<close>
  lr_now_created :: int        \<comment> \<open>\<open>datetime.now()\<close>, local time, line 860\<close>

text \<open>The session row of lines 857-867.\<close>

definition login_session :: "config \<Rightarrow> login_reads \<Rightarrow> string \<Rightarrow> ip \<Rightarrow> session" where
  "login_session cfg lr uid host =
     (let access = create_access_token cfg uid (lr_utcnow_access lr);
          refresh = create_refresh_token cfg uid (lr_utcnow_refresh lr);
          expires = lr_utcnow_expires lr + days (REFRESH_TOKEN_EXPIRE_DAYS cfg);
          now = lr_now_created lr
      in \<lparr> session_id = lr_session_id lr, session_user_id = uid,
           access_token_hash = hash_token access, refresh_token_hash = hash_token refresh,
           expires_at = expires, session_created_at = now, ip_address = host \<rparr>)"

text \<open>
  \<open>login_user\<close> (lines 812-880). The limiter's state is in memory and keeps its changes
  when the handler raises. The cursor's \<open>with\<close> block holds the \<open>SELECT\<close> only; the
  \<open>UPDATE\<close> (line 850) and the \<open>INSERT\<close> (line 862) come after it.
\<close>

definition login_user ::
  "float_sub \<Rightarrow> config \<Rightarrow> pwd_context \<Rightarrow> RateLimiter \<Rightarrow> database \<Rightarrow> UserLogin \<Rightarrow> ip
     \<Rightarrow> login_reads \<Rightarrow> (py_exn + TokenResponse) \<times> RateLimiter \<times> database" where
  "login_user fsub cfg pwd rate_limiter db credentials client_ip lr =
     (case check_failed_attempts fsub rate_limiter client_ip (lr_time_check lr) of
        (ok, rl1) \<Rightarrow>
          if \<not> ok
          then (Inl (HTTPException 429
                       (Text ''Too many failed login attempts. Please try again later.'')),
                rl1, db)
          else
            (case cursor_execute Open Pyformat of
               Some e \<Rightarrow> (Inl e, rl1, db)
             | None \<Rightarrow>
                 (case select_user_by_email db (login_email credentials) of
                    None \<Rightarrow>
                      (Inl (HTTPException 401 (Text ''Invalid email or password'')),
                       record_failed_attempt rl1 client_ip (lr_time_record lr), db)
                  | Some u \<Rightarrow>
                      if \<not> verify pwd (login_password credentials) (password_hash u)
                      then (Inl (HTTPException 401 (Text ''Invalid email or password'')),
                            record_failed_attempt rl1 client_ip (lr_time_record lr), db)
                      else if \<not> is_active u
                      then (Inl (HTTPException 403 (Text ''Account has been disabled'')),
                            rl1, db)
                      else
                        (case cursor_execute Closed Pyformat of
                           Some e \<Rightarrow> (Inl e, rl1, db)
                         | None \<Rightarrow>
                             let txn = update_last_login db (lr_now_last_login lr) (user_id u);
                                 access = create_access_token cfg (user_id u)
                                            (lr_utcnow_access lr);
                                 refresh = create_refresh_token cfg (user_id u)
                                             (lr_utcnow_refresh lr)
                             in (case cursor_execute Closed Pyformat of
                                   Some e \<Rightarrow> (Inl e, rl1, db)
                                 | None \<Rightarrow>
                                     (Inr \<lparr> access_token = access, refresh_token = refresh,
                                            token_type = ''bearer'',
                                            response_user =
                                              (user_id u, user_email u, full_name u) \<rparr>,
                                      rl1,
                                      insert_session txn
                                        (login_session cfg lr (user_id u) client_ip)))))))"

text \<open>\<open>logout_user\<close> (lines 882-891): all statements inside the cursor's block.\<close>

definition logout_user :: "database \<Rightarrow> user \<Rightarrow> (py_exn + string) \<times> database" where
  "logout_user db current_user =
     (case cursor_execute Open Pyformat of
        Some e \<Rightarrow> (Inl e, db)
      | None \<Rightarrow> (Inr ''Successfully logged out'', delete_sessions db (user_id current_user)))"

definition get_current_user_profile :: "user \<Rightarrow> UserProfile" where
  "get_current_user_profile current_user =
     \<lparr> profile_user_id = user_id current_user,
       profile_email = user_email current_user,
       profile_full_name = full_name current_user,
       profile_business_name = business_name current_user,
       profile_is_verified = is_verified current_user,
       profile_created_at = created_at current_user \<rparr>"

definition allowed_fields :: "string list" where
  "allowed_fields = [''full_name'', ''business_name'']"

text \<open>\<open>update_user_profile\<close> (lines 905-933); \<open>updates\<close> is the items of the JSON body.\<close>

definition update_user_profile ::
  "database \<Rightarrow> (string \<times> string) list \<Rightarrow> user \<Rightarrow> int \<Rightarrow> (py_exn + string) \<times> database" where
  "update_user_profile db updates current_user now =
     (let update_data = filter (\<lambda>(k, v). k \<in> set allowed_fields) updates
      in if update_data = []
         then (Inl (HTTPException 400 (Text ''No valid fields to update'')), db)
         else (case cursor_execute Open Pyformat of
                 Some e \<Rightarrow> (Inl e, db)
               | None \<Rightarrow>
                   (Inr ''Profile updated successfully'',
                    update_profile db update_data now (user_id current_user))))"

text \<open>
  \<open>change_password\<close> (lines 935-964). The cursor's block holds the password check only;
  the \<open>UPDATE\<close> (line 952) and the \<open>DELETE\<close> (line 959) come after it.
\<close>

definition change_password ::
  "pwd_context \<Rightarrow> database \<Rightarrow> PasswordChange \<Rightarrow> user \<Rightarrow> int \<Rightarrow> (py_exn + string) \<times> database"
  where
  "change_password pwd db password_data current_user now =
     (if \<not> verify pwd (current_password password_data) (password_hash current_user)
      then (Inl (HTTPException 400 (Text ''Current password is incorrect'')), db)
      else
        let new_hash = hash pwd (new_password password_data)
        in (case cursor_execute Closed Pyformat of
              Some e \<Rightarrow> (Inl e, db)
            | None \<Rightarrow>
                let txn = update_password db new_hash now (user_id current_user)
                in (case cursor_execute Closed Pyformat of
                      Some e \<Rightarrow> (Inl e, db)
                    | None \<Rightarrow>
                        (Inr ''Password changed successfully. Please login again.'',
                         delete_sessions txn (user_id current_user)))))"

text \<open>
  The routes: FastAPI resolves a route's dependencies first and does not call the handler
  when one of them raises.
\<close>

definition get_auth_me ::
  "config \<Rightarrow> database \<Rightarrow> token \<Rightarrow> int \<Rightarrow> py_exn + UserProfile" where
  "get_auth_me cfg db tok now =
     (case get_current_user cfg db tok now of
        Inl e \<Rightarrow> Inl e
      | Inr current_user \<Rightarrow> Inr (get_current_user_profile current_user))"

definition post_auth_logout ::
  "config \<Rightarrow> database \<Rightarrow> token \<Rightarrow> int \<Rightarrow> (py_exn + string) \<times> database" where
  "post_auth_logout cfg db tok now =
     (case get_current_user cfg db tok now of
        Inl e \<Rightarrow> (Inl e, db)
      | Inr current_user \<Rightarrow> logout_user db current_user)"

definition put_auth_me ::
  "config \<Rightarrow> database \<Rightarrow> token \<Rightarrow> int \<Rightarrow> (string \<times> string) list \<Rightarrow> int
     \<Rightarrow> (py_exn + string) \<times> database" where
  "put_auth_me cfg db tok now updates t =
     (case get_current_user cfg db tok now of
        Inl e \<Rightarrow> (Inl e, db)
      | Inr current_user \<Rightarrow> update_user_profile db updates current_user t)"

definition post_auth_change_password ::
  "config \<Rightarrow> pwd_context \<Rightarrow> database \<Rightarrow> token \<Rightarrow> int \<Rightarrow> PasswordChange \<Rightarrow> int
     \<Rightarrow> (py_exn + string) \<times> database" where
  "post_auth_change_password cfg pwd db tok now password_data t =
     (case get_current_user cfg db tok now of
        Inl e \<Rightarrow> (Inl e, db)
      | Inr current_user \<Rightarrow> change_password pwd db password_data current_user t)"

definition post_auth_login ::
  "float_sub \<Rightarrow> config \<Rightarrow> pwd_context \<Rightarrow> RateLimiter \<Rightarrow> database \<Rightarrow> real \<Rightarrow> real
     \<Rightarrow> UserLogin \<Rightarrow> ip \<Rightarrow> login_reads
     \<Rightarrow> (py_exn + TokenResponse) \<times> RateLimiter \<times> database" where
  "post_auth_login fsub cfg pwd rate_limiter db t_clean t_count credentials client_ip lr =
     (case check_rate_limit fsub rate_limiter
             \<lparr> client_host = client_ip, url_path = ''/auth/login'' \<rparr> t_clean t_count of
        (Inl e, rl1) \<Rightarrow> (Inl e, rl1, db)
      | (Inr ok, rl1) \<Rightarrow> login_user fsub cfg pwd rl1 db credentials client_ip lr)"

definition post_auth_register ::
  "float_sub \<Rightarrow> config \<Rightarrow> pwd_context \<Rightarrow> RateLimiter \<Rightarrow> database \<Rightarrow> real \<Rightarrow> real
     \<Rightarrow> UserRegister \<Rightarrow> ip \<Rightarrow> register_reads
     \<Rightarrow> (py_exn + TokenResponse) \<times> RateLimiter \<times> database" where
  "post_auth_register fsub cfg pwd rate_limiter db t_clean t_count user_data host rd =
     (case check_rate_limit fsub rate_limiter
             \<lparr> client_host = host, url_path = ''/auth/register'' \<rparr> t_clean t_count of
        (Inl e, rl1) \<Rightarrow> (Inl e, rl1, db)
      | (Inr ok, rl1) \<Rightarrow>
          (case register_user cfg pwd db user_data host rd of
             (r, db') \<Rightarrow> (r, rl1, db')))"

section \<open>Notions used by the statements\<close>

text \<open>
  The entries of a list of requests that the comparison of the source,
  \<open>now - timestamp < window\<close>, finds inside the window at the reading \<open>now\<close>.
\<close>

definition purge ::
  "float_sub \<Rightarrow> nat \<Rightarrow> real \<Rightarrow> (real \<times> string) list \<Rightarrow> (real \<times> string) list" where
  "purge fsub window now entries =
     filter (\<lambda>(timestamp, endpoint). fsub now timestamp < real window) entries"

text \<open>
  A run of checks by one client address. Each check is the route with the two clock
  reads the check makes, the one of \<open>_clean_old_requests\<close> first. The result is the
  verdicts in order and the limiter after the run.
\<close>

type_synonym rate_check = "string \<times> real \<times> real"

fun check_all ::
  "float_sub \<Rightarrow> RateLimiter \<Rightarrow> ip \<Rightarrow> rate_check list \<Rightarrow> bool list \<times> RateLimiter" where
  "check_all fsub rl i [] = ([], rl)"
| "check_all fsub rl i ((ep, t_clean, t) # cs) =
     (case RateLimiter_check_rate_limit fsub rl i ep t_clean t of
        ((allowed, remaining, window), rl') \<Rightarrow>
          (case check_all fsub rl' i cs of (flags, rl'') \<Rightarrow> (allowed # flags, rl'')))"

text \<open>
  No check of a run purges or overlooks what the run records: the time of every check of
  the run is inside the window of every check of the run, at both of its reads, as the
  source compares them.
\<close>

definition keeps_its_entries :: "float_sub \<Rightarrow> rate_check list \<Rightarrow> bool" where
  "keeps_its_entries fsub run =
     list_all (\<lambda>(ep, t_clean, t).
        list_all (\<lambda>(ep', t_clean', t').
           fsub t_clean t' < real (snd (limits (classify ep)))
           \<and> fsub t t' < real (snd (limits (classify ep)))) run) run"

text \<open>
  The subtraction at the concrete inputs below. Their readings are whole seconds, and
  the difference of two doubles that are whole numbers below \<open>2^53\<close> is exact.
\<close>

definition exact_sub :: float_sub where
  "exact_sub a b = a - b"

text \<open>Concrete inputs: a Unicode database that knows no letter or digit beyond ASCII.\<close>

definition ascii_only :: unicode_db where
  "ascii_only = \<lparr> uc_upper = (\<lambda>c. False), uc_lower = (\<lambda>c. False), uc_digit = (\<lambda>c. False) \<rparr>"

text \<open>
  A stand-in for passlib at concrete inputs: it knows the digests of two passwords and
  verifies by comparing digests.
\<close>

definition toy_pwd_context :: pwd_context where
  "toy_pwd_context =
     \<lparr> hash = (\<lambda>p. if p = str ''Abcdef1!2345'' then ''digest-1''
                    else if p = str ''Zyxwvu9?8765'' then ''digest-2''
                    else ''digest-0''),
       verify = (\<lambda>p h. h = (if p = str ''Abcdef1!2345'' then ''digest-1''
                             else if p = str ''Zyxwvu9?8765'' then ''digest-2''
                             else ''digest-0'')) \<rparr>"

text \<open>Two stored users, the second one disabled, and a session of the first.\<close>

definition alice :: user where
  "alice =
     \<lparr> user_id = ''u1'', user_email = ''a@x.com'', password_hash = ''digest-1'',
       full_name = ''Alice'', business_name = None, is_active = True, is_verified = True,
       created_at = 0, updated_at = 0, last_login_at = None \<rparr>"

definition bob :: user where
  "bob =
     \<lparr> user_id = ''u2'', user_email = ''b@x.com'', password_hash = ''digest-2'',
       full_name = ''Bob'', business_name = None, is_active = False, is_verified = True,
       created_at = 0, updated_at = 0, last_login_at = None \<rparr>"

definition alice_token :: token where
  "alice_token = create_access_token default_config ''u1'' 0"

definition alice_session :: session where
  "alice_session =
     \<lparr> session_id = ''s1'', session_user_id = ''u1'',
       access_token_hash = hash_token alice_token,
       refresh_token_hash = hash_token (create_refresh_token default_config ''u1'' 0),
       expires_at = 604800, session_created_at = 0, ip_address = ''10.0.0.1'' \<rparr>"

definition sample_db :: database where
  "sample_db = \<lparr> users = [alice, bob], auth_sessions = [alice_session] \<rparr>"

text \<open>A limiter that holds ten failed logins of one address, one a second.\<close>

definition blocked_limiter :: RateLimiter where
  "blocked_limiter =
     \<lparr> requests = (\<lambda>j. []),
       failed_attempts = (\<lambda>j. if j = ''10.0.0.1'' then [1, 2, 3, 4, 5, 6, 7, 8, 9, 10] else []) \<rparr>"

definition empty_db :: database where
  "empty_db = \<lparr> users = [], auth_sessions = [] \<rparr>"

text \<open>A registration request and the reads of one run of \<open>register_user\<close>.\<close>

definition carol_request :: UserRegister where
  "carol_request =
     \<lparr> reg_email = ''c@x.com'', reg_password = str ''Abcdef1!2345'',
       reg_full_name = ''Carol'', reg_business_name = None \<rparr>"

definition carol_reads :: register_reads where
  "carol_reads =
     \<lparr> rr_user_id = ''u3'', rr_now = 1000, rr_utcnow_access = 1000,
       rr_utcnow_refresh = 1000, rr_session_id = ''s3'', rr_utcnow_expires = 1000 \<rparr>"

text \<open>
  The reads of one run of \<open>login_user\<close> on a server whose local time is one hour ahead of
  UTC: \<open>datetime.utcnow()\<close> gives 1000 where \<open>datetime.now()\<close> gives 4600.
\<close>

definition login_reads_utc_plus_1 :: login_reads where
  "login_reads_utc_plus_1 =
     \<lparr> lr_time_check = 1000, lr_time_record = 1000, lr_now_last_login = 4600,
       lr_utcnow_access = 1000, lr_utcnow_refresh = 1000, lr_session_id = ''s4'',
       lr_utcnow_expires = 1000, lr_now_created = 4600 \<rparr>"

text \<open>
  A provider key set with one RSA key, and three tokens of the provider: one in force,
  one expired, one signed with a key the set does not hold.
\<close>

definition provider_jwks :: jwks where
  "provider_jwks =
     [(''keys'', [\<lparr> jwk_kid = Some ''k1'', kty = Some ''RSA'', material = Some (RSA_key 1) \<rparr>])]"

definition provider_claims :: claims where
  "provider_claims =
     \<lparr> sub = Some ''u1'', exp = Some 2000, type = None, email = Some ''a@x.com'' \<rparr>"

definition provider_token :: token where
  "provider_token = JWT \<lparr> alg = Some ''RS256'', kid = Some ''k1'' \<rparr> (RSA_key 1) provider_claims"

definition rotated_token :: token where
  "rotated_token = JWT \<lparr> alg = Some ''RS256'', kid = Some ''k2'' \<rparr> (RSA_key 2) provider_claims"

section \<open>Password strength\<close>

lemma validate_password_strength_iff:
  "fst (validate_password_strength U s) \<longleftrightarrow>
     (12 \<le> length s \<and> length s \<le> 128
      \<and> list_ex (isupper U) s \<and> list_ex (islower U) s \<and> list_ex (isdigit U) s
      \<and> list_ex (\<lambda>c. c \<in> set special_characters) s)"
  by (auto simp: validate_password_strength_def MIN_PASSWORD_LENGTH_def
      MAX_PASSWORD_LENGTH_def Let_def)

lemma validate_password_strength_reason:
  "\<not> fst (validate_password_strength U s) \<Longrightarrow>
     snd (validate_password_strength U s) \<in>
       {''Password must be at least 12 characters long'',
        ''Password must be less than 128 characters'',
        ''Password must contain uppercase, lowercase, digit, and special character''}"
  by (auto simp: validate_password_strength_def Let_def split: if_splits)

lemma short_password:
  "validate_password_strength U (str ''short1!'') =
     (False, ''Password must be at least 12 characters long'')"
  by (simp add: validate_password_strength_def MIN_PASSWORD_LENGTH_def str_def)

lemma no_digit_password:
  "validate_password_strength U (str ''NoDigitsHere!!'') =
     (False, ''Password must contain uppercase, lowercase, digit, and special character'')"
  by (simp add: validate_password_strength_def MIN_PASSWORD_LENGTH_def
      MAX_PASSWORD_LENGTH_def str_def isdigit_def Let_def)

lemma valid_password:
  "validate_password_strength U (str ''ValidPass123!'') = (True, ''Password is strong'')"
  by (simp add: validate_password_strength_def MIN_PASSWORD_LENGTH_def
      MAX_PASSWORD_LENGTH_def str_def isdigit_def isupper_def islower_def
      special_characters_def Let_def)

text \<open>
  Claim C9. For every string, \<open>validate_password_strength\<close> passes exactly when the
  length is between 12 and 128 and the string holds an uppercase letter, a lowercase
  letter, a digit and a character of the punctuation set; when it does not pass, the
  second component is one of the three reason strings. \<open>short1!\<close> and
  \<open>NoDigitsHere!!\<close> fail, \<open>ValidPass123!\<close> passes, whatever the Unicode database
  says beyond ASCII.
\<close>

theorem validate_password_strength_spec:
  "(fst (validate_password_strength U s) \<longleftrightarrow>
      12 \<le> length s \<and> length s \<le> 128
      \<and> (\<exists>c\<in>set s. isupper U c) \<and> (\<exists>c\<in>set s. islower U c)
      \<and> (\<exists>c\<in>set s. isdigit U c) \<and> (\<exists>c\<in>set s. c \<in> set special_characters))
   \<and> (\<not> fst (validate_password_strength U s) \<longrightarrow>
        snd (validate_password_strength U s) \<in>
          {''Password must be at least 12 characters long'',
           ''Password must be less than 128 characters'',
           ''Password must contain uppercase, lowercase, digit, and special character''})
   \<and> \<not> fst (validate_password_strength U (str ''short1!''))
   \<and> \<not> fst (validate_password_strength U (str ''NoDigitsHere!!''))
   \<and> fst (validate_password_strength U (str ''ValidPass123!''))"
proof -
  have "fst (validate_password_strength U s) \<longleftrightarrow>
      12 \<le> length s \<and> length s \<le> 128
      \<and> (\<exists>c\<in>set s. isupper U c) \<and> (\<exists>c\<in>set s. islower U c)
      \<and> (\<exists>c\<in>set s. isdigit U c) \<and> (\<exists>c\<in>set s. c \<in> set special_characters)"
    by (simp add: validate_password_strength_iff list_ex_iff)
  moreover have "\<not> fst (validate_password_strength U s) \<longrightarrow>
        snd (validate_password_strength U s) \<in>
          {''Password must be at least 12 characters long'',
           ''Password must be less than 128 characters'',
           ''Password must contain uppercase, lowercase, digit, and special character''}"
    using validate_password_strength_reason by blast
  ultimately show ?thesis
    by (simp only: short_password no_digit_password valid_password fst_conv simp_thms)
qed

theorem validate_password_strength_spec_witness:
  "fst (validate_password_strength ascii_only (str ''Abcdef1!2345''))
   \<and> length (str ''Abcdef1!2345'') = 12
   \<and> \<not> fst (validate_password_strength ascii_only (str ''abcdef1!2345''))
   \<and> snd (validate_password_strength ascii_only (str ''abcdef1!2345'')) =
       ''Password must contain uppercase, lowercase, digit, and special character''"
proof -
  have up: "\<exists>c\<in>set (str ''Abcdef1!2345''). isupper ascii_only c"
    and lo: "\<exists>c\<in>set (str ''Abcdef1!2345''). islower ascii_only c"
    and di: "\<exists>c\<in>set (str ''Abcdef1!2345''). isdigit ascii_only c"
    and sp: "\<exists>c\<in>set (str ''Abcdef1!2345''). c \<in> set special_characters"
    by (simp_all add: str_def isupper_def islower_def isdigit_def special_characters_def)
  have len: "length (str ''Abcdef1!2345'') = 12"
    by (simp add: str_def)
  have pass: "fst (validate_password_strength ascii_only (str ''Abcdef1!2345''))"
    using validate_password_strength_spec [of ascii_only "str ''Abcdef1!2345''"]
      up lo di sp len by simp
  have noup: "\<not> (\<exists>c\<in>set (str ''abcdef1!2345''). isupper ascii_only c)"
    by (simp add: str_def isupper_def)
  have fail: "\<not> fst (validate_password_strength ascii_only (str ''abcdef1!2345''))"
    using validate_password_strength_spec [of ascii_only "str ''abcdef1!2345''"] noup
    by blast
  have reason: "snd (validate_password_strength ascii_only (str ''abcdef1!2345'')) =
       ''Password must contain uppercase, lowercase, digit, and special character''"
    by (simp add: validate_password_strength_def MIN_PASSWORD_LENGTH_def
        MAX_PASSWORD_LENGTH_def str_def isupper_def Let_def)
  show ?thesis using pass len fail reason by simp
qed

section \<open>The generic throttle\<close>

lemma purge_idem: "purge fsub w t (purge fsub w t xs) = purge fsub w t xs"
  unfolding purge_def by (induction xs) auto

lemma purge_append: "purge fsub w t (xs @ ys) = purge fsub w t xs @ purge fsub w t ys"
  by (simp add: purge_def)

lemma purge_all_inside:
  "\<forall>x\<in>set xs. fsub t (fst x) < real w \<Longrightarrow> purge fsub w t xs = xs"
  unfolding purge_def by (induction xs) auto

lemma purge_all_outside:
  "\<forall>x\<in>set xs. \<not> fsub t (fst x) < real w \<Longrightarrow> purge fsub w t xs = []"
  unfolding purge_def by (induction xs) auto

lemma check_unfold:
  "RateLimiter_check_rate_limit fsub rl i ep t_clean t =
     (let N = fst (limits (classify ep)); w = snd (limits (classify ep));
          kept = purge fsub w t_clean (requests rl i);
          n = length (purge fsub w t kept)
      in if N \<le> n then ((False, int N, w), rl\<lparr>requests := (requests rl)(i := kept)\<rparr>)
         else ((True, int N - int n - 1, w),
               rl\<lparr>requests := (requests rl)(i := kept @ [(t, ep)])\<rparr>))"
  by (simp add: RateLimiter_check_rate_limit_def clean_old_requests_def purge_def Let_def)

lemma limits_pos: "0 < fst (limits k)"
  by (cases k) simp_all

lemma check_rate_limit_unfold:
  "check_rate_limit fsub rl \<lparr> client_host = i, url_path = ep \<rparr> t_clean t =
     (if fst (limits (classify ep))
           \<le> length (purge fsub (snd (limits (classify ep))) t
                      (purge fsub (snd (limits (classify ep))) t_clean (requests rl i)))
      then (Inl (HTTPException 429 (Rate_limit_exceeded (snd (limits (classify ep))))),
            rl\<lparr> requests := (requests rl)
              (i := purge fsub (snd (limits (classify ep))) t_clean (requests rl i)) \<rparr>)
      else (Inr True,
            rl\<lparr> requests := (requests rl)
              (i := purge fsub (snd (limits (classify ep))) t_clean (requests rl i)
                    @ [(t, ep)]) \<rparr>))"
  by (simp add: check_rate_limit_def check_unfold Let_def)

lemma check_rate_limit_after_window:
  assumes "\<forall>x\<in>set (requests rl i). \<not> fsub t_clean (fst x) < real (snd (limits (classify ep)))"
  shows "check_rate_limit fsub rl \<lparr> client_host = i, url_path = ep \<rparr> t_clean t =
     (Inr True, rl\<lparr> requests := (requests rl)(i := [(t, ep)]) \<rparr>)"
proof -
  have "purge fsub (snd (limits (classify ep))) t_clean (requests rl i) = []"
    using assms by (intro purge_all_outside)
  then show ?thesis
    using limits_pos [of "classify ep"] by (simp add: check_rate_limit_unfold purge_def)
qed

text \<open>
  One check on a list \<open>A @ ps\<close> whose part \<open>ps\<close> is inside the window at both reads:
  \<open>ps\<close> survives the purge and is counted.
\<close>

lemma check_step:
  assumes list: "requests rl i = A @ ps"
    and inside: "\<forall>x\<in>set ps. fsub t_clean (fst x) < real (snd (limits (classify ep)))
                   \<and> fsub t (fst x) < real (snd (limits (classify ep)))"
    and r: "r = RateLimiter_check_rate_limit fsub rl i ep t_clean t"
  shows "fst (fst r) \<Longrightarrow> length ps < fst (limits (classify ep))"
    and "A = [] \<Longrightarrow> fst (fst r) \<longleftrightarrow> length ps < fst (limits (classify ep))"
    and "requests (snd r) i =
          purge fsub (snd (limits (classify ep))) t_clean A
          @ (if fst (fst r) then ps @ [(t, ep)] else ps)"
proof -
  let ?w = "snd (limits (classify ep))"
  let ?N = "fst (limits (classify ep))"
  have p1: "purge fsub ?w t_clean ps = ps"
    using inside by (intro purge_all_inside) simp
  have p2: "purge fsub ?w t ps = ps"
    using inside by (intro purge_all_inside) simp
  have kept: "purge fsub ?w t_clean (requests rl i) = purge fsub ?w t_clean A @ ps"
    by (simp add: list purge_append p1)
  have n: "length (purge fsub ?w t (purge fsub ?w t_clean (requests rl i))) =
      length (purge fsub ?w t (purge fsub ?w t_clean A)) + length ps"
    by (simp add: kept purge_append p2)
  have verdict: "fst (fst r) \<longleftrightarrow>
      length (purge fsub ?w t (purge fsub ?w t_clean A)) + length ps < ?N"
    using n by (simp add: r check_unfold Let_def)
  show "fst (fst r) \<Longrightarrow> length ps < ?N"
    using verdict by simp
  show "A = [] \<Longrightarrow> fst (fst r) \<longleftrightarrow> length ps < ?N"
    using verdict by (simp add: purge_def)
  show "requests (snd r) i =
      purge fsub ?w t_clean A @ (if fst (fst r) then ps @ [(t, ep)] else ps)"
    by (simp add: r check_unfold Let_def kept)
qed

lemma check_all_Cons:
  "fst (check_all fsub rl i ((ep, t_clean, t) # cs)) =
     fst (fst (RateLimiter_check_rate_limit fsub rl i ep t_clean t))
     # fst (check_all fsub (snd (RateLimiter_check_rate_limit fsub rl i ep t_clean t)) i cs)"
  by (auto split: prod.splits)

lemma length_check_all: "length (fst (check_all fsub rl i run)) = length run"
  by (induction fsub rl i run rule: check_all.induct) (auto split: prod.splits)

lemma keeps_its_entries_Cons:
  assumes "keeps_its_entries fsub ((ep, t_clean, t) # cs)"
  shows "keeps_its_entries fsub cs"
    and "\<forall>(ep', tc', t')\<in>set cs.
           fsub tc' t < real (snd (limits (classify ep')))
           \<and> fsub t' t < real (snd (limits (classify ep')))"
  using assms by (auto simp: keeps_its_entries_def list_all_iff)

lemma check_all_bound:
  assumes "keeps_its_entries fsub run"
    and "requests rl i = A @ ps"
    and "\<forall>(ep, tc, t)\<in>set run. \<forall>x\<in>set ps.
           fsub tc (fst x) < real (snd (limits (classify ep)))
           \<and> fsub t (fst x) < real (snd (limits (classify ep)))"
    and "k < length run"
  shows "(fst (check_all fsub rl i run) ! k \<longrightarrow>
            length ps + length (filter (\<lambda>b. b) (take k (fst (check_all fsub rl i run))))
              < fst (limits (classify (fst (run ! k)))))
       \<and> (A = [] \<longrightarrow>
            (fst (check_all fsub rl i run) ! k \<longleftrightarrow>
               length ps + length (filter (\<lambda>b. b) (take k (fst (check_all fsub rl i run))))
                 < fst (limits (classify (fst (run ! k))))))"
  using assms
proof (induction run arbitrary: rl A ps k)
  case Nil
  then show ?case by simp
next
  case (Cons c cs)
  obtain ep tc t where c: "c = (ep, tc, t)"
    by (cases c) auto
  define r where "r = RateLimiter_check_rate_limit fsub rl i ep tc t"
  have inside: "\<forall>x\<in>set ps. fsub tc (fst x) < real (snd (limits (classify ep)))
      \<and> fsub t (fst x) < real (snd (limits (classify ep)))"
    using Cons.prems(3) by (simp add: c)
  note step = check_step [OF Cons.prems(2) inside r_def]
  have flags: "fst (check_all fsub rl i ((ep, tc, t) # cs)) =
      fst (fst r) # fst (check_all fsub (snd r) i cs)"
    by (simp only: check_all_Cons r_def)
  show ?case
  proof (cases k)
    case 0
    then show ?thesis
      using step(1,2) unfolding c by (auto simp: flags simp del: check_all.simps)
  next
    case (Suc j)
    define ps' where "ps' = (if fst (fst r) then ps @ [(t, ep)] else ps)"
    define A' where "A' = purge fsub (snd (limits (classify ep))) tc A"
    have list': "requests (snd r) i = A' @ ps'"
      using step(3) by (simp add: ps'_def A'_def)
    have keeps: "keeps_its_entries fsub cs"
      using Cons.prems(1) keeps_its_entries_Cons(1) c by blast
    have new: "\<forall>(ep', tc', t')\<in>set cs.
        fsub tc' t < real (snd (limits (classify ep')))
        \<and> fsub t' t < real (snd (limits (classify ep')))"
      using Cons.prems(1) keeps_its_entries_Cons(2) c by blast
    have prot: "\<forall>(ep', tc', t')\<in>set cs. \<forall>x\<in>set ps'.
        fsub tc' (fst x) < real (snd (limits (classify ep')))
        \<and> fsub t' (fst x) < real (snd (limits (classify ep')))"
      using Cons.prems(3) new by (auto simp: ps'_def)
    have j: "j < length cs"
      using Cons.prems(4) Suc by simp
    note IH = Cons.IH [OF keeps list' prot j]
    have len: "length ps' = length ps + (if fst (fst r) then 1 else 0)"
      by (simp add: ps'_def)
    have A'_empty: "A = [] \<Longrightarrow> A' = []"
      by (simp add: A'_def purge_def)
    show ?thesis
      using IH A'_empty unfolding c by (auto simp: flags Suc len simp del: check_all.simps)
  qed
qed


lemma check_all_rejects_after_limit:
  assumes "keeps_its_entries fsub run"
    and "k < length run"
    and "fst (limits (classify (fst (run ! k))))
           \<le> length (filter (\<lambda>b. b) (take k (fst (check_all fsub rl i run))))"
  shows "\<not> fst (check_all fsub rl i run) ! k"
  using check_all_bound [OF assms(1), of rl i "requests rl i" "[]" k] assms(2,3)
  by auto

lemma check_all_from_empty:
  assumes keeps: "keeps_its_entries fsub run"
    and empty: "requests rl i = []"
    and route: "\<forall>c\<in>set run. fst c = ep"
    and len: "length run = Suc (fst (limits (classify ep)))"
  shows "fst (check_all fsub rl i run) = replicate (fst (limits (classify ep))) True @ [False]"
proof -
  let ?N = "fst (limits (classify ep))"
  let ?flags = "fst (check_all fsub rl i run)"
  have lf: "length ?flags = Suc ?N"
    by (simp add: length_check_all len)
  have verdict: "?flags ! k \<longleftrightarrow> length (filter (\<lambda>b. b) (take k ?flags)) < ?N"
    if "k < length run" for k
  proof -
    have "fst (run ! k) = ep"
      using route that by simp
    then show ?thesis
      using check_all_bound [OF keeps, of rl i "[]" "[]" k] empty that by simp
  qed
  have pre: "k \<le> ?N \<Longrightarrow> take k ?flags = replicate k True" for k
  proof (induction k)
    case 0
    then show ?case by simp
  next
    case (Suc k)
    then have IH: "take k ?flags = replicate k True" by simp
    have k: "k < length run" using Suc.prems len by simp
    have "?flags ! k"
      using verdict [OF k] Suc.prems by (simp add: IH)
    moreover have "take (Suc k) ?flags = take k ?flags @ [?flags ! k]"
      using k lf len by (simp add: take_Suc_conv_app_nth)
    ultimately show ?case
      by (simp add: IH replicate_append_same)
  qed
  have last: "\<not> ?flags ! ?N"
    using verdict [of ?N] pre [of ?N] len by simp
  have "?N < length ?flags"
    using lf by simp
  then have "take (Suc ?N) ?flags = take ?N ?flags @ [?flags ! ?N]"
    by (rule take_Suc_conv_app_nth)
  moreover have "take (Suc ?N) ?flags = ?flags"
    using lf by simp
  ultimately show ?thesis
    using pre [of ?N] last by simp
qed

lemma classify_register: "classify ''/auth/register'' = auth_register"
  by code_simp

lemma classify_login: "classify ''/auth/login'' = auth_login"
  by code_simp

lemma classify_summary: "classify ''/summary'' = summary"
  by code_simp

text \<open>
  Claim C6, amended. Let \<open>(N, w)\<close> be the limit of the route's class. A check first
  replaces the list of the client address by \<open>kept\<close>, its entries of whatever class that
  the comparison \<open>now - timestamp < w\<close> of the source finds inside the window, then
  counts the entries of \<open>kept\<close> by the same comparison at its second clock read (all of
  \<open>kept\<close> when the two reads are equal), and either rejects with status 429 and
  \<open>retry_after = w\<close> when the count is at least \<open>N\<close>, or appends the request and admits
  it. In a run of checks of one address in which no check purges or overlooks what the
  run has recorded, a check is rejected once as many checks of the run as its class
  allows have been admitted; on one route and from no entries, the first \<open>N\<close> checks are
  admitted and the next one is rejected. When the comparison finds every entry of the
  address outside the window, the request is admitted.
\<close>

theorem check_rate_limit_sliding_window:
  assumes "N = fst (limits (classify ep))"
    and "w = snd (limits (classify ep))"
    and "req = \<lparr> client_host = i, url_path = ep \<rparr>"
    and "kept = purge fsub w t_clean (requests rl i)"
  shows
    "check_rate_limit fsub rl req t_clean t =
       (if N \<le> length (purge fsub w t kept)
        then (Inl (HTTPException 429 (Rate_limit_exceeded w)),
              rl\<lparr> requests := (requests rl)(i := kept) \<rparr>)
        else (Inr True, rl\<lparr> requests := (requests rl)(i := kept @ [(t, ep)]) \<rparr>))
     \<and> (t_clean = t \<longrightarrow> purge fsub w t kept = kept)
     \<and> (keeps_its_entries fsub run \<longrightarrow>
          (\<forall>k<length run.
             fst (limits (classify (fst (run ! k))))
               \<le> length (filter (\<lambda>b. b) (take k (fst (check_all fsub rl i run)))) \<longrightarrow>
             \<not> fst (check_all fsub rl i run) ! k))
     \<and> (keeps_its_entries fsub run \<and> requests rl i = [] \<and> (\<forall>c\<in>set run. fst c = ep)
          \<and> length run = Suc N \<longrightarrow>
          fst (check_all fsub rl i run) = replicate N True @ [False])
     \<and> ((\<forall>x\<in>set (requests rl i). \<not> fsub t_clean (fst x) < real w) \<longrightarrow>
          check_rate_limit fsub rl req t_clean t =
            (Inr True, rl\<lparr> requests := (requests rl)(i := [(t, ep)]) \<rparr>))"
proof (intro conjI impI allI)
  show "check_rate_limit fsub rl req t_clean t =
       (if N \<le> length (purge fsub w t kept)
        then (Inl (HTTPException 429 (Rate_limit_exceeded w)),
              rl\<lparr> requests := (requests rl)(i := kept) \<rparr>)
        else (Inr True, rl\<lparr> requests := (requests rl)(i := kept @ [(t, ep)]) \<rparr>))"
    unfolding assms by (rule check_rate_limit_unfold)
next
  assume "t_clean = t"
  then show "purge fsub w t kept = kept"
    unfolding assms by (simp add: purge_idem)
next
  fix k
  assume "keeps_its_entries fsub run" and "k < length run"
    and "fst (limits (classify (fst (run ! k))))
           \<le> length (filter (\<lambda>b. b) (take k (fst (check_all fsub rl i run))))"
  then show "\<not> fst (check_all fsub rl i run) ! k"
    by (rule check_all_rejects_after_limit)
next
  assume "keeps_its_entries fsub run \<and> requests rl i = [] \<and> (\<forall>c\<in>set run. fst c = ep)
      \<and> length run = Suc N"
  then show "fst (check_all fsub rl i run) = replicate N True @ [False]"
    unfolding assms by (intro check_all_from_empty) simp_all
next
  assume "\<forall>x\<in>set (requests rl i). \<not> fsub t_clean (fst x) < real w"
  then show "check_rate_limit fsub rl req t_clean t =
      (Inr True, rl\<lparr> requests := (requests rl)(i := [(t, ep)]) \<rparr>)"
    unfolding assms by (rule check_rate_limit_after_window)
qed

theorem check_rate_limit_sliding_window_witness:
  "fst (check_all exact_sub RateLimiter_init ''10.0.0.1''
         [(''/auth/register'', 0, 0), (''/auth/register'', 1, 1), (''/auth/register'', 2, 2),
          (''/auth/register'', 3, 3)]) =
     [True, True, True, False]
   \<and> fst (check_rate_limit exact_sub
         (RateLimiter_init\<lparr> requests := (requests RateLimiter_init)(''10.0.0.1'' :=
            [(0, ''/auth/register''), (1, ''/auth/register''), (2, ''/auth/register'')]) \<rparr>)
         \<lparr> client_host = ''10.0.0.1'', url_path = ''/auth/register'' \<rparr> 3 3) =
     Inl (HTTPException 429 (Rate_limit_exceeded 3600))
   \<and> check_rate_limit exact_sub
         (RateLimiter_init\<lparr> requests := (requests RateLimiter_init)(''10.0.0.1'' :=
            [(0, ''/auth/register''), (1, ''/auth/register''), (2, ''/auth/register'')]) \<rparr>)
         \<lparr> client_host = ''10.0.0.1'', url_path = ''/auth/register'' \<rparr> 3602 3602 =
     (Inr True,
      RateLimiter_init\<lparr> requests := (requests RateLimiter_init)(''10.0.0.1'' :=
         [(3602, ''/auth/register'')]) \<rparr>)"
proof -
  let ?run = "[(''/auth/register'', 0, 0), (''/auth/register'', 1, 1),
      (''/auth/register'', 2, 2), (''/auth/register'', 3, 3)] :: rate_check list"
  let ?full = "RateLimiter_init\<lparr> requests := (requests RateLimiter_init)(''10.0.0.1'' :=
      [(0, ''/auth/register''), (1, ''/auth/register''), (2, ''/auth/register'')]) \<rparr>"
  let ?req = "\<lparr> client_host = ''10.0.0.1'', url_path = ''/auth/register'' \<rparr>"
  have N: "(3::nat) = fst (limits (classify ''/auth/register''))"
    and w: "(3600::nat) = snd (limits (classify ''/auth/register''))"
    by (simp_all add: classify_register)
  have empty: "requests RateLimiter_init ''10.0.0.1'' = []"
    by (simp add: RateLimiter_init_def)
  have stored: "requests ?full ''10.0.0.1'' =
      [(0, ''/auth/register''), (1, ''/auth/register''), (2, ''/auth/register'')]"
    by simp
  have kept_init: "[] = purge exact_sub 3600 3 (requests RateLimiter_init ''10.0.0.1'')"
    by (simp add: empty purge_def)
  have kept_inside: "[(0, ''/auth/register''), (1, ''/auth/register''), (2, ''/auth/register'')] =
      purge exact_sub 3600 3 (requests ?full ''10.0.0.1'')"
    by (simp add: purge_def exact_sub_def)
  have kept_outside: "[] = purge exact_sub 3600 3602 (requests ?full ''10.0.0.1'')"
    by (simp add: purge_def exact_sub_def)
  have keeps: "keeps_its_entries exact_sub ?run"
    by (simp add: keeps_its_entries_def classify_register exact_sub_def)
  have run: "keeps_its_entries exact_sub ?run \<and> requests RateLimiter_init ''10.0.0.1'' = []
      \<and> (\<forall>c\<in>set ?run. fst c = ''/auth/register'') \<and> length ?run = Suc 3"
    using keeps by (simp add: empty)
  have old: "\<forall>x\<in>set (requests ?full ''10.0.0.1''). \<not> exact_sub 3602 (fst x) < real (3600::nat)"
    by (simp add: exact_sub_def)
  note from_empty = check_rate_limit_sliding_window
    [where fsub = exact_sub and rl = RateLimiter_init and run = ?run and t = 3,
      OF N w refl kept_init]
  note inside = check_rate_limit_sliding_window
    [where fsub = exact_sub and rl = ?full and run = ?run and t = 3, OF N w refl kept_inside]
  note outside = check_rate_limit_sliding_window
    [where fsub = exact_sub and rl = ?full and run = ?run and t = 3602,
      OF N w refl kept_outside]
  have "fst (check_all exact_sub RateLimiter_init ''10.0.0.1'' ?run) =
      replicate 3 True @ [False]"
    using from_empty run by blast
  moreover have "fst (check_rate_limit exact_sub ?full ?req 3 3) =
      Inl (HTTPException 429 (Rate_limit_exceeded 3600))"
    using inside by (simp add: purge_def exact_sub_def)
  moreover have "check_rate_limit exact_sub ?full ?req 3602 3602 =
      (Inr True, ?full\<lparr> requests := (requests ?full)(''10.0.0.1'' :=
         [(3602, ''/auth/register'')]) \<rparr>)"
    using outside old by blast
  ultimately show ?thesis by (simp add: numeral_3_eq_3)
qed

text \<open>
  Claim C6, as stated, fails in its last part. The purge is per address, not per class: a
  check on a route whose class has a shorter window removes entries that a class with a
  longer window would still count. An address makes three registrations (limit 3 per 3600
  seconds) at seconds 0, 1 and 2, all admitted; its request to \<open>/summary\<close> (window 60)
  at second 100 purges them; its fourth registration, at second 101 and well inside the
  hour, is admitted.
\<close>

theorem fourth_registration_admitted:
  "limits (classify ''/auth/register'') = (3, 3600)
   \<and> fst (check_all exact_sub RateLimiter_init ''10.0.0.1''
         [(''/auth/register'', 0, 0), (''/auth/register'', 1, 1), (''/auth/register'', 2, 2),
          (''/summary'', 100, 100), (''/auth/register'', 101, 101)]) =
       [True, True, True, True, True]"
  by (simp add: check_unfold classify_register classify_summary purge_def exact_sub_def
      RateLimiter_init_def Let_def)

section \<open>The failed-login throttle\<close>

lemma check_rate_limit_failed_attempts:
  "failed_attempts (snd (check_rate_limit fsub rl req t1 t2)) = failed_attempts rl"
  by (simp add: check_rate_limit_def RateLimiter_check_rate_limit_def clean_old_requests_def
      Let_def split: prod.splits)

lemma login_user_throttled:
  assumes "10 \<le> length (filter (\<lambda>ts. fsub (lr_time_check lr) ts < 3600) (failed_attempts rl i))"
  shows "login_user fsub cfg pwd rl db credentials i lr =
     (Inl (HTTPException 429 (Text ''Too many failed login attempts. Please try again later.'')),
      rl\<lparr> failed_attempts := (failed_attempts rl)
        (i := filter (\<lambda>ts. fsub (lr_time_check lr) ts < 3600) (failed_attempts rl i)) \<rparr>,
      db)"
  using assms by (simp add: login_user_def check_failed_attempts_def Let_def)

lemma post_auth_login_throttled:
  assumes "10 \<le> length (filter (\<lambda>ts. fsub (lr_time_check lr) ts < 3600) (failed_attempts rl i))"
  shows "\<exists>d rl'. post_auth_login fsub cfg pwd rl db t_clean t_count credentials i lr =
     (Inl (HTTPException 429 d), rl', db)"
proof (cases "check_rate_limit fsub rl \<lparr> client_host = i, url_path = ''/auth/login'' \<rparr> t_clean t_count")
  case (Pair r rl1)
  have fa: "failed_attempts rl1 = failed_attempts rl"
    using check_rate_limit_failed_attempts [of fsub rl "\<lparr> client_host = i, url_path = ''/auth/login'' \<rparr>" t_clean t_count]
    by (simp add: Pair)
  show ?thesis
  proof (cases r)
    case (Inl e)
    then have "\<exists>w. e = HTTPException 429 (Rate_limit_exceeded w)"
      using Pair by (auto simp: check_rate_limit_def split: prod.splits if_splits)
    then show ?thesis using Pair Inl by (auto simp: post_auth_login_def)
  next
    case (Inr ok)
    have "10 \<le> length (filter (\<lambda>ts. fsub (lr_time_check lr) ts < 3600) (failed_attempts rl1 i))"
      using assms by (simp add: fa)
    from login_user_throttled [where fsub = fsub and cfg = cfg and pwd = pwd and db = db
        and credentials = credentials, OF this]
    show ?thesis using Pair Inr by (simp add: post_auth_login_def)
  qed
qed

lemma login_user_failed_attempts:
  assumes "login_user fsub cfg pwd rl db credentials i lr = (r, rl', db')"
    and "kept = filter (\<lambda>ts. fsub (lr_time_check lr) ts < 3600) (failed_attempts rl i)"
  shows "requests rl' = requests rl"
    and "j \<noteq> i \<Longrightarrow> failed_attempts rl' j = failed_attempts rl j"
    and "failed_attempts rl' i = kept \<or>
         (failed_attempts rl' i = kept @ [lr_time_record lr]
          \<and> r = Inl (HTTPException 401 (Text ''Invalid email or password''))
          \<and> (case select_user_by_email db (login_email credentials) of
                None \<Rightarrow> True
              | Some u \<Rightarrow> \<not> verify pwd (login_password credentials) (password_hash u)))"
  using assms
  by (auto simp: login_user_def check_failed_attempts_def record_failed_attempt_def
      cursor_execute_def Let_def split: if_splits option.splits)

text \<open>
  Claim C7. Let \<open>kept\<close> be the failed logins of the client address that are less than an
  hour old when \<open>login_user\<close> checks them. With ten or more of them the handler raises
  status 429 whatever the credentials, the stored users and the password verifier are, so
  before any credential is looked at; the route as a whole answers 429 as well, whether
  or not the generic limiter admits the request. The generic limiter never touches the
  failed-login lists; \<open>login_user\<close> leaves the lists of other addresses alone, and the
  list of the client address is \<open>kept\<close> afterwards unless the credential check failed
  (unknown email or wrong password, answered 401), in which case one entry is appended.
\<close>

theorem login_failed_attempt_throttle:
  assumes "kept = filter (\<lambda>ts. fsub (lr_time_check lr) ts < 3600) (failed_attempts rl i)"
  shows
    "(10 \<le> length kept \<longrightarrow>
        login_user fsub cfg pwd rl db credentials i lr =
          (Inl (HTTPException 429
                  (Text ''Too many failed login attempts. Please try again later.'')),
           rl\<lparr> failed_attempts := (failed_attempts rl)(i := kept) \<rparr>, db)
        \<and> (\<exists>d rl'. post_auth_login fsub cfg pwd rl db t_clean t_count credentials i lr =
               (Inl (HTTPException 429 d), rl', db)))
     \<and> failed_attempts (snd (check_rate_limit fsub rl req t_clean t_count)) = failed_attempts rl
     \<and> (\<forall>r rl' db'. login_user fsub cfg pwd rl db credentials i lr = (r, rl', db') \<longrightarrow>
          requests rl' = requests rl
          \<and> (\<forall>j. j \<noteq> i \<longrightarrow> failed_attempts rl' j = failed_attempts rl j)
          \<and> (failed_attempts rl' i = kept
              \<or> (failed_attempts rl' i = kept @ [lr_time_record lr]
                  \<and> r = Inl (HTTPException 401 (Text ''Invalid email or password''))
                  \<and> (case select_user_by_email db (login_email credentials) of
                        None \<Rightarrow> True
                      | Some u \<Rightarrow>
                          \<not> verify pwd (login_password credentials) (password_hash u)))))"
proof (intro conjI impI allI)
  assume "10 \<le> length kept"
  then show "login_user fsub cfg pwd rl db credentials i lr =
      (Inl (HTTPException 429
              (Text ''Too many failed login attempts. Please try again later.'')),
       rl\<lparr> failed_attempts := (failed_attempts rl)(i := kept) \<rparr>, db)"
    unfolding assms by (rule login_user_throttled)
next
  assume "10 \<le> length kept"
  then show "\<exists>d rl'. post_auth_login fsub cfg pwd rl db t_clean t_count credentials i lr =
      (Inl (HTTPException 429 d), rl', db)"
    unfolding assms by (rule post_auth_login_throttled)
next
  show "failed_attempts (snd (check_rate_limit fsub rl req t_clean t_count)) = failed_attempts rl"
    by (rule check_rate_limit_failed_attempts)
next
  fix r rl' db'
  assume run: "login_user fsub cfg pwd rl db credentials i lr = (r, rl', db')"
  show "requests rl' = requests rl"
    by (rule login_user_failed_attempts(1) [OF run assms])
  show "failed_attempts rl' i = kept
      \<or> (failed_attempts rl' i = kept @ [lr_time_record lr]
          \<and> r = Inl (HTTPException 401 (Text ''Invalid email or password''))
          \<and> (case select_user_by_email db (login_email credentials) of
                None \<Rightarrow> True
              | Some u \<Rightarrow> \<not> verify pwd (login_password credentials) (password_hash u)))"
    by (rule login_user_failed_attempts(3) [OF run assms])
  fix j
  assume "j \<noteq> i"
  then show "failed_attempts rl' j = failed_attempts rl j"
    by (rule login_user_failed_attempts(2) [OF run assms])
qed

theorem login_failed_attempt_throttle_witness:
  "fst (login_user exact_sub default_config toy_pwd_context blocked_limiter sample_db
         \<lparr> login_email = ''a@x.com'', login_password = str ''Abcdef1!2345'' \<rparr>
         ''10.0.0.1'' login_reads_utc_plus_1) =
     Inl (HTTPException 429 (Text ''Too many failed login attempts. Please try again later.''))
   \<and> length (failed_attempts blocked_limiter ''10.0.0.1'') = 10"
proof -
  have kept: "[1, 2, 3, 4, 5, 6, 7, 8, 9, 10] =
      filter (\<lambda>ts. exact_sub (lr_time_check login_reads_utc_plus_1) ts < 3600)
        (failed_attempts blocked_limiter ''10.0.0.1'')"
    by (simp add: blocked_limiter_def login_reads_utc_plus_1_def exact_sub_def)
  have ten: "10 \<le> length [1, 2, 3, 4, 5, 6, 7, 8, 9, 10 :: real]"
    by simp
  have "login_user exact_sub default_config toy_pwd_context blocked_limiter sample_db
         \<lparr> login_email = ''a@x.com'', login_password = str ''Abcdef1!2345'' \<rparr>
         ''10.0.0.1'' login_reads_utc_plus_1 =
     (Inl (HTTPException 429 (Text ''Too many failed login attempts. Please try again later.'')),
      blocked_limiter\<lparr> failed_attempts := (failed_attempts blocked_limiter)
        (''10.0.0.1'' := [1, 2, 3, 4, 5, 6, 7, 8, 9, 10]) \<rparr>, sample_db)"
    using login_failed_attempt_throttle [where fsub = exact_sub, OF kept] ten by blast
  then show ?thesis by (simp add: blocked_limiter_def)
qed

section \<open>The local authorization dependency and its routes\<close>

lemma jwt_decode_local:
  assumes "tok = JWT h (HMAC_key k) payload"
    and "alg h = Some ''HS256''"
    and "case exp payload of None \<Rightarrow> True | Some e \<Rightarrow> now < e"
  shows "jwt_decode tok (HMAC_key k) [Some ALGORITHM] now = Inr payload"
  using assms
  by (auto simp: jwt_decode_def ALGORITHM_def alg_family_def split: option.splits)

lemma select_active_user_none:
  assumes "\<forall>u\<in>set (users db). Some (user_id u) = s \<longrightarrow> \<not> is_active u"
  shows "select_active_user db s = None"
  using assms by (auto simp: select_active_user_def find_None_iff split: option.splits)

lemma get_current_user_no_active_user:
  assumes "jwt_decode tok (HMAC_key (SECRET_KEY cfg)) [Some ALGORITHM] now = Inr payload"
    and "select_active_user db (sub payload) = None"
  shows "get_current_user cfg db tok now =
     Inl (HTTPException 401
       (Text (if type payload = Some ''access'' then ''User not found or inactive''
              else ''Invalid or expired token'')))"
  using assms by (simp add: get_current_user_def verify_token_def cursor_execute_def)

text \<open>
  Claim C10. A bearer token signed with the server's secret under HS256 and not yet
  expired, whose subject is not the identifier of a stored user with the active flag set,
  makes \<open>get_current_user\<close> raise status 401; so the four routes that depend on it
  (logout, both profile routes, change-password) answer 401 and leave the tables as they
  were. The check is made by the dependency on every call.
\<close>

theorem local_dependency_rejects_unknown_or_inactive:
  assumes "tok = JWT h (HMAC_key (SECRET_KEY cfg)) payload"
    and "alg h = Some ''HS256''"
    and "case exp payload of None \<Rightarrow> True | Some e \<Rightarrow> now < e"
    and "\<forall>u\<in>set (users db). Some (user_id u) = sub payload \<longrightarrow> \<not> is_active u"
    and "e = HTTPException 401
           (Text (if type payload = Some ''access'' then ''User not found or inactive''
                  else ''Invalid or expired token''))"
  shows "get_current_user cfg db tok now = Inl e
     \<and> get_auth_me cfg db tok now = Inl e
     \<and> post_auth_logout cfg db tok now = (Inl e, db)
     \<and> put_auth_me cfg db tok now updates t = (Inl e, db)
     \<and> post_auth_change_password cfg pwd db tok now password_data t = (Inl e, db)"
proof -
  have "jwt_decode tok (HMAC_key (SECRET_KEY cfg)) [Some ALGORITHM] now = Inr payload"
    by (rule jwt_decode_local [OF assms(1-3)])
  moreover have "select_active_user db (sub payload) = None"
    by (rule select_active_user_none [OF assms(4)])
  ultimately have "get_current_user cfg db tok now = Inl e"
    unfolding assms(5) by (rule get_current_user_no_active_user)
  then show ?thesis
    by (simp add: get_auth_me_def post_auth_logout_def put_auth_me_def
        post_auth_change_password_def)
qed

theorem local_dependency_rejects_unknown_or_inactive_witness:
  "get_auth_me default_config sample_db (create_access_token default_config ''u2'' 0) 100 =
     Inl (HTTPException 401 (Text ''User not found or inactive''))
   \<and> post_auth_logout default_config sample_db (create_access_token default_config ''u2'' 0) 100 =
     (Inl (HTTPException 401 (Text ''User not found or inactive'')), sample_db)
   \<and> \<not> is_active bob \<and> user_id bob = ''u2''"
proof -
  let ?payload = "\<lparr> sub = Some ''u2'', exp = Some 1800, type = Some ''access'', email = None \<rparr>"
  have tok: "create_access_token default_config ''u2'' 0 =
      JWT \<lparr> alg = Some ''HS256'', kid = None \<rparr> (HMAC_key (SECRET_KEY default_config)) ?payload"
    by (simp add: create_access_token_def jwt_encode_def default_config_def minutes_def
        ALGORITHM_def)
  have a: "alg \<lparr> alg = Some ''HS256'', kid = None \<rparr> = Some ''HS256''"
    by simp
  have fresh: "case exp ?payload of None \<Rightarrow> True | Some e \<Rightarrow> (100::int) < e"
    by simp
  have nobody: "\<forall>u\<in>set (users sample_db). Some (user_id u) = sub ?payload \<longrightarrow> \<not> is_active u"
    by (simp add: sample_db_def alice_def bob_def)
  have e: "HTTPException 401 (Text ''User not found or inactive'') =
      HTTPException 401
        (Text (if type ?payload = Some ''access'' then ''User not found or inactive''
               else ''Invalid or expired token''))"
    by simp
  show ?thesis
    using local_dependency_rejects_unknown_or_inactive [OF tok a fresh nobody e]
    by (simp add: bob_def)
qed

section \<open>Password change\<close>

lemma select_active_user_ignores_sessions:
  "select_active_user (db\<lparr> auth_sessions := ss \<rparr>) s = select_active_user db s"
  by (simp add: select_active_user_def split: option.split)

lemma get_current_user_ignores_sessions:
  "get_current_user cfg (db\<lparr> auth_sessions := ss \<rparr>) tok now = get_current_user cfg db tok now"
  by (simp add: get_current_user_def select_active_user_ignores_sessions
      split: sum.split option.split)


lemma change_password_raises:
  "change_password pwd db password_data current_user now =
     (if \<not> verify pwd (current_password password_data) (password_hash current_user)
      then (Inl (HTTPException 400 (Text ''Current password is incorrect'')), db)
      else (Inl (InterfaceError ''cursor already closed''), db))"
  by (simp add: change_password_def cursor_execute_def Let_def)


lemma post_auth_change_password_raises:
  "snd (post_auth_change_password cfg pwd db tok now password_data t) = db
   \<and> isl (fst (post_auth_change_password cfg pwd db tok now password_data t))"
  by (simp add: post_auth_change_password_def change_password_raises
      split: sum.split)


section \<open>The local token service\<close>

lemma JWTError_not_exported: "''JWTError'' \<notin> set jwt_exceptions"
  by (simp add: jwt_exceptions_def)

lemma verify_token_cases:
  "verify_token cfg tok purpose now =
     (case jwt_decode tok (HMAC_key (SECRET_KEY cfg)) [Some ALGORITHM] now of
        Inr payload \<Rightarrow> if type payload = Some purpose then Inr (Some payload) else Inr None
      | Inl e \<Rightarrow> if e = ExpiredSignatureError then Inr None
                 else Inl (AttributeError ''module jwt has no attribute JWTError''))"
  by (simp add: verify_token_def JWTError_not_exported split: sum.split)

lemma verify_token_payload_iff:
  "verify_token cfg tok purpose now = Inr (Some payload) \<longleftrightarrow>
     jwt_decode tok (HMAC_key (SECRET_KEY cfg)) [Some ALGORITHM] now = Inr payload
     \<and> type payload = Some purpose"
  by (auto simp: verify_token_cases split: sum.splits if_splits)

lemma jwt_decode_local_iff:
  "jwt_decode tok (HMAC_key k) [Some ALGORITHM] now = Inr payload \<longleftrightarrow>
     (\<exists>h. tok = JWT h (HMAC_key k) payload \<and> alg h = Some ''HS256''
          \<and> (case exp payload of None \<Rightarrow> True | Some e \<Rightarrow> now < e))"
  by (cases tok)
    (auto simp: jwt_decode_def ALGORITHM_def alg_family_def split: option.splits if_splits)

lemma verify_token_garbage:
  "verify_token cfg (Garbage s) purpose now =
     Inl (AttributeError ''module jwt has no attribute JWTError'')"
  by (simp add: verify_token_cases jwt_decode_def)

lemma verify_token_wrong_key:
  "k \<noteq> HMAC_key (SECRET_KEY cfg) \<Longrightarrow>
   verify_token cfg (jwt_encode payload k ''HS256'') purpose now =
     Inl (AttributeError ''module jwt has no attribute JWTError'')"
  by (simp add: verify_token_cases jwt_decode_def jwt_encode_def ALGORITHM_def alg_family_def)

lemma verify_token_none_iff:
  "verify_token cfg tok purpose now = Inr None \<longleftrightarrow>
     jwt_decode tok (HMAC_key (SECRET_KEY cfg)) [Some ALGORITHM] now = Inl ExpiredSignatureError
     \<or> (\<exists>payload. jwt_decode tok (HMAC_key (SECRET_KEY cfg)) [Some ALGORITHM] now = Inr payload
           \<and> type payload \<noteq> Some purpose)"
  by (auto simp: verify_token_cases split: sum.splits if_splits)

lemma verify_token_purpose_mismatch:
  assumes "now < issued + minutes (ACCESS_TOKEN_EXPIRE_MINUTES cfg)"
    and "now < issued + days (REFRESH_TOKEN_EXPIRE_DAYS cfg)"
  shows "verify_token cfg (create_access_token cfg uid issued) ''refresh'' now = Inr None"
    and "verify_token cfg (create_refresh_token cfg uid issued) ''access'' now = Inr None"
  using assms
  by (simp_all add: verify_token_def create_access_token_def create_refresh_token_def
      jwt_encode_def jwt_decode_def ALGORITHM_def alg_family_def Let_def)

lemma verify_token_expired:
  assumes "issued + minutes (ACCESS_TOKEN_EXPIRE_MINUTES cfg) \<le> now"
  shows "verify_token cfg (create_access_token cfg uid issued) ''access'' now = Inr None"
  using assms
  by (simp add: verify_token_def create_access_token_def jwt_encode_def jwt_decode_def
      ALGORITHM_def alg_family_def Let_def)

text \<open>
  Claim C3 at inputs where the code departs from it. \<open>verify_token\<close> returns the payload
  exactly for a token that decodes under the server's secret and carries the expected
  purpose (\<open>verify_token_payload_iff\<close>), and returns none for an expired token and for a
  purpose mismatch (\<open>verify_token_none_iff\<close>). For a string that is no token, and for a
  token signed with another secret, it does not return none: the second \<open>except\<close> clause
  names \<open>jwt.JWTError\<close>, which PyJWT does not have, so \<open>AttributeError\<close> is raised, and
  the dependency \<open>get_current_user\<close> passes it on, which the framework answers with
  status 500.
\<close>

theorem verify_token_raises_on_invalid_token:
  "verify_token default_config (Garbage ''not-a-token'') ''access'' 0 =
     Inl (AttributeError ''module jwt has no attribute JWTError'')
   \<and> verify_token default_config
       (jwt_encode \<lparr> sub = Some ''u1'', exp = Some 1800, type = Some ''access'', email = None \<rparr>
          (HMAC_key ''guessed-secret'') ''HS256'') ''access'' 0 =
     Inl (AttributeError ''module jwt has no attribute JWTError'')
   \<and> get_current_user default_config sample_db (Garbage ''not-a-token'') 0 =
     Inl (AttributeError ''module jwt has no attribute JWTError'')
   \<and> status_code (AttributeError ''module jwt has no attribute JWTError'') = 500"
  by (simp add: verify_token_garbage verify_token_wrong_key default_config_def
      get_current_user_def)

section \<open>The external identity verifier\<close>

lemma get_jwks_unobtainable:
  assumes "\<not> truthy_jwks (jwks_cache st)"
  shows "get_jwks fsub st None t_check t_store = (None, st)"
  using assms by (simp add: get_jwks_def)

lemma verify_supabase_token_no_jwks:
  assumes "\<not> truthy_jwks (jwks_cache st)"
  shows "verify_supabase_token fsub st None t_check t_store (JWT h k payload) now =
     (Inl (HTTPException 401 (Invalid_token (HTTPException 500 (Text ''Unable to fetch JWKS'')))),
      st)"
  using assms
  by (simp add: verify_supabase_token_def verify_supabase_token_try_def
      get_unverified_header_def get_jwks_def truthy_jwks_def)

lemma status_never_5xx:
  "fst (verify_supabase_token fsub st fetched t_check t_store tok now) = Inl e \<Longrightarrow> status_code e = 401"
  by (auto simp: verify_supabase_token_def split: prod.splits sum.splits if_splits)

text \<open>
  Claim C4 at an input where the code departs from it. No key set has ever been cached
  and the fetch fails; the token is well formed. The \<open>HTTPException\<close> with status 500
  that the \<open>try\<close> block raises is caught by the block's own \<open>except Exception\<close> clause,
  and the request is answered with status 401. By \<open>status_never_5xx\<close> no failure of
  \<open>verify_supabase_token\<close> has another status than 401.
\<close>

theorem verify_supabase_token_without_jwks:
  "verify_supabase_token exact_sub jwks_init None 10 10 provider_token 10 =
     (Inl (HTTPException 401 (Invalid_token (HTTPException 500 (Text ''Unable to fetch JWKS'')))),
      jwks_init)
   \<and> get_jwks exact_sub jwks_init None 10 10 = (None, jwks_init)"
  by (simp add: provider_token_def verify_supabase_token_no_jwks get_jwks_unobtainable
      jwks_init_def truthy_jwks_def)

section \<open>What failure responses tell the caller\<close>

lemma login_user_unknown_email:
  assumes "length (filter (\<lambda>ts. fsub (lr_time_check lr) ts < 3600) (failed_attempts rl i)) < 10"
    and "select_user_by_email db (login_email credentials) = None"
  shows "fst (login_user fsub cfg pwd rl db credentials i lr) =
     Inl (HTTPException 401 (Text ''Invalid email or password''))"
  using assms by (simp add: login_user_def check_failed_attempts_def cursor_execute_def Let_def)

lemma login_user_wrong_password:
  assumes "length (filter (\<lambda>ts. fsub (lr_time_check lr) ts < 3600) (failed_attempts rl i)) < 10"
    and "select_user_by_email db (login_email credentials) = Some u"
    and "\<not> verify pwd (login_password credentials) (password_hash u)"
  shows "fst (login_user fsub cfg pwd rl db credentials i lr) =
     Inl (HTTPException 401 (Text ''Invalid email or password''))"
  using assms by (simp add: login_user_def check_failed_attempts_def cursor_execute_def Let_def)

lemma prepare_key_not_expired: "prepare_key family key \<noteq> Some ExpiredSignatureError"
  by (cases family; cases key) simp_all

lemma prepare_key_object:
  "prepare_key family (RSA_key n) = None \<longleftrightarrow> family = RSA"
  "prepare_key family (EC_key n) = None \<longleftrightarrow> family = EC"
  by (cases family; simp)+

text \<open>
  \<open>jwt.decode\<close> raises \<open>ExpiredSignatureError\<close> exactly when every earlier check has
  passed and the expiry has: the token is well formed, its algorithm is allowed and known
  and signs, the key suits the algorithm and is the key that signed the token.
\<close>

lemma jwt_decode_expired_iff:
  "jwt_decode tok key algorithms now = Inl ExpiredSignatureError \<longleftrightarrow>
     (\<exists>h payload a family e. tok = JWT h key payload \<and> alg h = Some a
        \<and> Some a \<in> set algorithms \<and> alg_family a = Some family \<and> family \<noteq> Unsecured
        \<and> prepare_key family key = None \<and> exp payload = Some e \<and> e \<le> now)"
  using prepare_key_not_expired
  by (cases tok) (auto simp: jwt_decode_def split: option.splits if_splits)

lemma from_jwk_results:
  "RSAAlgorithm_from_jwk key_data = Inr key \<longleftrightarrow>
     material key_data = Some key \<and> (\<exists>n. key = RSA_key n)"
  "ECAlgorithm_from_jwk key_data = Inr key \<longleftrightarrow>
     material key_data = Some key \<and> (\<exists>n. key = EC_key n)"
  "RSAAlgorithm_from_jwk key_data \<noteq> Inl ExpiredSignatureError"
  "ECAlgorithm_from_jwk key_data \<noteq> Inl ExpiredSignatureError"
  by (auto simp: RSAAlgorithm_from_jwk_def ECAlgorithm_from_jwk_def
      split: option.splits jwt_key.splits)

lemma verify_supabase_token_expired_iff_try:
  "fst (verify_supabase_token fsub st fetched t_check t_store tok now) =
       Inl (HTTPException 401 (Text ''Token has expired''))
   \<longleftrightarrow> fst (verify_supabase_token_try fsub st fetched t_check t_store tok now) =
       Inl ExpiredSignatureError"
  by (auto simp: verify_supabase_token_def split: prod.splits sum.splits if_splits)

lemma verify_supabase_token_try_expired_iff:
  "fst (verify_supabase_token_try fsub st fetched t_check t_store tok now) =
       Inl ExpiredSignatureError
   \<longleftrightarrow> (\<exists>h k payload document key_data a e.
          tok = JWT h k payload
        \<and> fst (get_jwks fsub st fetched t_check t_store) = Some document \<and> document \<noteq> []
        \<and> find (\<lambda>key. jwk_kid key = kid h) (jwks_keys document) = Some key_data
        \<and> (kty key_data = Some ''RSA'' \<and> (\<exists>n. k = RSA_key n)
           \<or> kty key_data = Some ''EC'' \<and> (\<exists>n. k = EC_key n))
        \<and> material key_data = Some k
        \<and> alg h = Some a \<and> alg_family a = Some (key_family_of k)
        \<and> exp payload = Some e \<and> e \<le> now)"
  (is "?l \<longleftrightarrow> ?r")
proof (cases tok)
  case (Garbage s)
  then show ?thesis
    by (simp add: verify_supabase_token_try_def get_unverified_header_def)
next
  case (JWT h k payload)
  obtain jwks st' where g: "get_jwks fsub st fetched t_check t_store = (jwks, st')"
    by (cases "get_jwks fsub st fetched t_check t_store")
  show ?thesis
  proof (cases "truthy_jwks jwks")
    case False
    then show ?thesis
      using JWT g
      by (auto simp: verify_supabase_token_try_def get_unverified_header_def truthy_jwks_def)
  next
    case True
    then obtain document where d: "jwks = Some document" "document \<noteq> []"
      by (auto simp: truthy_jwks_def split: option.splits)
    show ?thesis
    proof (cases "find (\<lambda>key. jwk_kid key = kid h) (jwks_keys document)")
      case None
      then show ?thesis
        using JWT g d True
        by (simp add: verify_supabase_token_try_def get_unverified_header_def)
    next
      case (Some key_data)
      have decode: "jwt_decode (JWT h k payload) key [alg h] now = Inl ExpiredSignatureError
          \<longleftrightarrow> k = key \<and> (\<exists>a family e. alg h = Some a \<and> alg_family a = Some family
                \<and> family \<noteq> Unsecured \<and> prepare_key family key = None
                \<and> exp payload = Some e \<and> e \<le> now)" for key
        by (auto simp: jwt_decode_expired_iff)
      have l: "?l \<longleftrightarrow>
          (\<exists>key. (if kty key_data = Some ''RSA'' then RSAAlgorithm_from_jwk key_data
                   else if kty key_data = Some ''EC'' then ECAlgorithm_from_jwk key_data
                   else Inl (HTTPException 401 (Unsupported_key_type (kty key_data)))) = Inr key
             \<and> jwt_decode (JWT h k payload) key [alg h] now = Inl ExpiredSignatureError)"
        using JWT g d True Some from_jwk_results(3,4) [of key_data]
        by (auto simp: verify_supabase_token_try_def get_unverified_header_def
            split: sum.splits option.splits)
      have r: "?r \<longleftrightarrow>
          ((kty key_data = Some ''RSA'' \<and> (\<exists>n. k = RSA_key n)
             \<or> kty key_data = Some ''EC'' \<and> (\<exists>n. k = EC_key n))
           \<and> material key_data = Some k
           \<and> (\<exists>a e. alg h = Some a \<and> alg_family a = Some (key_family_of k)
                \<and> exp payload = Some e \<and> e \<le> now))"
        using JWT g d Some by auto
      show ?thesis
        unfolding l r decode
        by (auto simp: from_jwk_results(1,2) prepare_key_object)
    qed
  qed
qed

lemma provider_token_ok:
  "fst (verify_supabase_token exact_sub jwks_init (Some provider_jwks) 10 10 provider_token 1999) =
     Inr \<lparr> identity_user_id = ''u1'', identity_email = Some ''a@x.com'' \<rparr>"
  by (simp add: verify_supabase_token_def verify_supabase_token_try_def
      get_unverified_header_def get_jwks_def truthy_jwks_def jwks_init_def provider_jwks_def
      provider_token_def provider_claims_def jwks_keys_def RSAAlgorithm_from_jwk_def
      jwt_decode_def alg_family_def)

lemma provider_token_expired:
  "fst (verify_supabase_token exact_sub jwks_init (Some provider_jwks) 10 10 provider_token 2000) =
     Inl (HTTPException 401 (Text ''Token has expired''))"
  by (simp add: verify_supabase_token_def verify_supabase_token_try_def
      get_unverified_header_def get_jwks_def truthy_jwks_def jwks_init_def provider_jwks_def
      provider_token_def provider_claims_def jwks_keys_def RSAAlgorithm_from_jwk_def
      jwt_decode_def alg_family_def)

lemma rotated_token_unknown_key:
  "fst (verify_supabase_token exact_sub jwks_init (Some provider_jwks) 10 10 rotated_token 10) =
     Inl (HTTPException 401
       (Invalid_token (HTTPException 401 (Text ''Signing key not found in JWKS''))))"
  by (simp add: verify_supabase_token_def verify_supabase_token_try_def
      get_unverified_header_def get_jwks_def truthy_jwks_def jwks_init_def provider_jwks_def
      rotated_token_def provider_claims_def jwks_keys_def)

text \<open>
  Claim C5, as stated, fails in its second half. Against one key set, an expired token of
  the provider is answered \<open>Token has expired\<close>, while a token whose key the set does
  not hold is answered \<open>Invalid token:\<close> followed by the text of the exception for the
  missing key: two different responses, which tell the caller whether it was the expiry
  check that failed.
\<close>

theorem token_failure_responses_differ:
  "fst (verify_supabase_token exact_sub jwks_init (Some provider_jwks) 10 10 provider_token 2000) =
     Inl (HTTPException 401 (Text ''Token has expired''))
   \<and> fst (verify_supabase_token exact_sub jwks_init (Some provider_jwks) 10 10 rotated_token 10) =
     Inl (HTTPException 401
       (Invalid_token (HTTPException 401 (Text ''Signing key not found in JWKS''))))
   \<and> fst (verify_supabase_token exact_sub jwks_init (Some provider_jwks) 10 10 provider_token 2000) \<noteq>
     fst (verify_supabase_token exact_sub jwks_init (Some provider_jwks) 10 10 rotated_token 10)"
  by (simp add: provider_token_expired rotated_token_unknown_key)

text \<open>
  Claim C5, amended. Two login attempts that pass the failed-login throttle, one with an
  email that no stored user has and one with a stored email and a password that does not
  verify, get the same response: status 401 with \<open>Invalid email or password\<close>. A failure
  of the external verifier is not generic. It answers \<open>Token has expired\<close> exactly when
  the token is well formed, the key set is available and holds an RSA or EC key under the
  token's key id, the token's algorithm is one for that kind of key, the signature
  verifies under that key, and the expiry has passed; so this response tells the caller
  that every other check succeeded and the expiry check failed.
\<close>

theorem failure_responses:
  assumes "length (filter (\<lambda>ts. fsub (lr_time_check lr_a) ts < 3600)
             (failed_attempts rl_a i_a)) < 10"
    and "length (filter (\<lambda>ts. fsub (lr_time_check lr_b) ts < 3600)
             (failed_attempts rl_b i_b)) < 10"
    and "select_user_by_email db_a (login_email unknown) = None"
    and "select_user_by_email db_b (login_email known) = Some u"
    and "\<not> verify pwd_b (login_password known) (password_hash u)"
  shows "fst (login_user fsub cfg_a pwd_a rl_a db_a unknown i_a lr_a) =
           fst (login_user fsub cfg_b pwd_b rl_b db_b known i_b lr_b)
     \<and> fst (login_user fsub cfg_a pwd_a rl_a db_a unknown i_a lr_a) =
           Inl (HTTPException 401 (Text ''Invalid email or password''))
     \<and> (fst (verify_supabase_token fsub st fetched t_check t_store tok now) =
            Inl (HTTPException 401 (Text ''Token has expired''))
        \<longleftrightarrow> (\<exists>h k payload document key_data a e.
               tok = JWT h k payload
             \<and> fst (get_jwks fsub st fetched t_check t_store) = Some document
             \<and> document \<noteq> []
             \<and> find (\<lambda>key. jwk_kid key = kid h) (jwks_keys document) = Some key_data
             \<and> (kty key_data = Some ''RSA'' \<and> (\<exists>n. k = RSA_key n)
                \<or> kty key_data = Some ''EC'' \<and> (\<exists>n. k = EC_key n))
             \<and> material key_data = Some k
             \<and> alg h = Some a \<and> alg_family a = Some (key_family_of k)
             \<and> exp payload = Some e \<and> e \<le> now))"
proof -
  have a: "fst (login_user fsub cfg_a pwd_a rl_a db_a unknown i_a lr_a) =
      Inl (HTTPException 401 (Text ''Invalid email or password''))"
    using assms(1,3) by (intro login_user_unknown_email)
  have b: "fst (login_user fsub cfg_b pwd_b rl_b db_b known i_b lr_b) =
      Inl (HTTPException 401 (Text ''Invalid email or password''))"
    using assms(2,4,5) by (intro login_user_wrong_password)
  show ?thesis
    unfolding verify_supabase_token_expired_iff_try verify_supabase_token_try_expired_iff
    using a b by simp
qed

theorem failure_responses_witness:
  "fst (login_user exact_sub default_config toy_pwd_context RateLimiter_init sample_db
         \<lparr> login_email = ''nobody@x.com'', login_password = str ''Abcdef1!2345'' \<rparr>
         ''10.0.0.1'' login_reads_utc_plus_1) =
   fst (login_user exact_sub default_config toy_pwd_context RateLimiter_init sample_db
         \<lparr> login_email = ''a@x.com'', login_password = str ''Zyxwvu9?8765'' \<rparr>
         ''10.0.0.1'' login_reads_utc_plus_1)
   \<and> select_user_by_email sample_db ''nobody@x.com'' = None
   \<and> select_user_by_email sample_db ''a@x.com'' = Some alice
   \<and> (\<exists>h k payload document key_data a e.
         provider_token = JWT h k payload
       \<and> fst (get_jwks exact_sub jwks_init (Some provider_jwks) 10 10) = Some document
       \<and> document \<noteq> []
       \<and> find (\<lambda>key. jwk_kid key = kid h) (jwks_keys document) = Some key_data
       \<and> (kty key_data = Some ''RSA'' \<and> (\<exists>n. k = RSA_key n)
          \<or> kty key_data = Some ''EC'' \<and> (\<exists>n. k = EC_key n))
       \<and> material key_data = Some k
       \<and> alg h = Some a \<and> alg_family a = Some (key_family_of k)
       \<and> exp payload = Some e \<and> e \<le> 2000)"
proof -
  have quiet: "length (filter (\<lambda>ts. exact_sub (lr_time_check login_reads_utc_plus_1) ts < 3600)
      (failed_attempts RateLimiter_init ''10.0.0.1'')) < 10"
    by (simp add: RateLimiter_init_def)
  have nobody: "select_user_by_email sample_db
      (login_email \<lparr> login_email = ''nobody@x.com'', login_password = str ''Abcdef1!2345'' \<rparr>)
      = None"
    by (simp add: select_user_by_email_def sample_db_def alice_def bob_def)
  have known: "select_user_by_email sample_db
      (login_email \<lparr> login_email = ''a@x.com'', login_password = str ''Zyxwvu9?8765'' \<rparr>)
      = Some alice"
    by (simp add: select_user_by_email_def sample_db_def alice_def)
  have wrong: "\<not> verify toy_pwd_context
      (login_password \<lparr> login_email = ''a@x.com'', login_password = str ''Zyxwvu9?8765'' \<rparr>)
      (password_hash alice)"
    by (simp add: toy_pwd_context_def alice_def str_def)
  note inst = failure_responses [where fsub = exact_sub and cfg_a = default_config
      and pwd_a = toy_pwd_context and cfg_b = default_config and st = jwks_init
      and fetched = "Some provider_jwks" and t_check = 10 and t_store = 10
      and tok = provider_token and now = 2000, OF quiet quiet nobody known wrong]
  show ?thesis
    using inst nobody known provider_token_expired by simp
qed

section \<open>Registration\<close>

lemma register_user_result:
  "register_user cfg pwd db user_data host rd =
     (if select_user_by_email db (reg_email user_data) \<noteq> None
      then (Inl (HTTPException 400 (Text ''Email already registered'')), db)
      else (Inl (InterfaceError ''cursor already closed''), db))"
  by (simp add: register_user_def cursor_execute_def Let_def)

lemma carol_not_registered: "select_user_by_email empty_db (reg_email carol_request) = None"
  by (simp add: select_user_by_email_def empty_db_def)

text \<open>
  Claim C2 at an input where the code departs from it. The email \<open>c@x.com\<close> is well
  formed and not stored, and the password passes the strength check. \<open>register_user\<close>
  does not answer with tokens: its \<open>INSERT\<close> into \<open>auth_sessions\<close> is executed on the
  cursor that the \<open>with\<close> block has closed (and is written with \<open>?\<close> placeholders), so
  psycopg2 raises, the connection is rolled back and no user is stored. A second
  registration with the same email therefore ends the same way, not with status 400. By
  \<open>register_user_result\<close> no call of \<open>register_user\<close> returns a response; the answer
  is status 400 when the email is already stored.
\<close>

theorem register_user_raises:
  "fst (validate_password_strength ascii_only (reg_password carol_request))
   \<and> select_user_by_email empty_db (reg_email carol_request) = None
   \<and> register_user default_config toy_pwd_context empty_db carol_request ''10.0.0.1'' carol_reads =
       (Inl (InterfaceError ''cursor already closed''), empty_db)
   \<and> register_user default_config toy_pwd_context
       (snd (register_user default_config toy_pwd_context empty_db carol_request ''10.0.0.1''
          carol_reads)) carol_request ''10.0.0.1'' carol_reads =
       (Inl (InterfaceError ''cursor already closed''), empty_db)"
  by (simp add: register_user_result carol_not_registered validate_password_strength_iff)
    (simp add: carol_request_def str_def isupper_def islower_def isdigit_def
      special_characters_def)

section \<open>Session rows\<close>

lemma login_user_stores_nothing:
  "snd (snd (login_user fsub cfg pwd rl db credentials i lr)) = db
   \<and> isl (fst (login_user fsub cfg pwd rl db credentials i lr))"
  by (simp add: login_user_def cursor_execute_def Let_def split: prod.split option.split)

lemma register_user_stores_nothing:
  "snd (register_user cfg pwd db user_data host rd) = db
   \<and> isl (fst (register_user cfg pwd db user_data host rd))"
  by (simp add: register_user_result)


end
